theory Spec2Isabelle
  imports Main "HOL-Library.AList" "HOL-Library.Multiset"
begin

section \<open>Data model\<close>

text \<open>
  \<^verbatim>\<open>parser.py\<close>, dataclass \<^verbatim>\<open>Entry\<close>: one record found on a page of a list.
  Python's unbounded integers are \<^typ>\<open>int\<close>; \<^verbatim>\<open>Optional[str]\<close> is
  \<^typ>\<open>string option\<close>.
\<close>

record Entry =
  label :: string
  page :: int
  rank :: int
  target :: string
  shift :: "string option"
  date :: "string option"
  raw :: string

text \<open>
  The exceptions that the modelled code can raise. A function that may raise returns
  a sum whose left injection is the exception. \<open>HTTPError\<close> carries the status of
  the response; \<open>RequestException\<close>, \<open>FetchError\<close> and \<open>ExtractError\<close> stand for
  what \<^verbatim>\<open>requests.post\<close>, the session and the PDF extraction may raise.
\<close>

datatype error =
    ValueError
  | TypeError
  | OverflowError
  | AttributeError
  | KeyError
  | HTTPError int
  | RequestException
  | FetchError
  | ExtractError
  | KeyboardInterrupt

subsection \<open>Time\<close>

text \<open>
  A naive \<^verbatim>\<open>datetime\<close> (what \<^verbatim>\<open>datetime.utcnow()\<close> returns) is its number of
  microseconds since the epoch. The state keeps timestamps as text, written by
  \<^verbatim>\<open>isoformat()\<close> and read back by \<^verbatim>\<open>datetime.fromisoformat\<close>. A timestamp text
  is represented by what \<^verbatim>\<open>fromisoformat\<close> makes of it: the text of a naive datetime
  (all that the program itself writes), the text of a datetime with a UTC offset, or
  a text that \<^verbatim>\<open>fromisoformat\<close> rejects with \<^verbatim>\<open>ValueError\<close>.
\<close>

datatype isotext = Iso int | Iso_aware int | Not_iso string

datatype datetime = Naive int | Aware int

definition isoformat :: "int \<Rightarrow> isotext" where
  "isoformat t = Iso t"

fun fromisoformat :: "isotext \<Rightarrow> error + datetime" where
  "fromisoformat (Iso t) = Inr (Naive t)"
| "fromisoformat (Iso_aware t) = Inr (Aware t)"
| "fromisoformat (Not_iso s) = Inl ValueError"

text \<open>
  \<^verbatim>\<open>datetime.utcnow() - sent\<close>: the difference in microseconds; subtracting an
  offset-aware datetime from a naive one raises \<^verbatim>\<open>TypeError\<close>.
\<close>

fun utcnow_minus :: "int \<Rightarrow> datetime \<Rightarrow> error + int" where
  "utcnow_minus now (Naive t) = Inr (now - t)"
| "utcnow_minus now (Aware t) = Inl TypeError"

text \<open>
  \<^verbatim>\<open>timedelta(minutes=m)\<close> in microseconds. A \<^verbatim>\<open>timedelta\<close> holds at most
  999999999 days in either direction and raises \<^verbatim>\<open>OverflowError\<close> beyond that.
\<close>

definition timedelta_minutes :: "int \<Rightarrow> error + int" where
  "timedelta_minutes m =
     (if - 999999999 \<le> m div 1440 \<and> m div 1440 \<le> 999999999
      then Inr (m * 60000000) else Inl OverflowError)"

subsection \<open>The persisted state\<close>

text \<open>
  \<^verbatim>\<open>state.py\<close>, dataclasses \<^verbatim>\<open>EntryState\<close>, \<^verbatim>\<open>AlertState\<close> and \<^verbatim>\<open>State\<close>. The two
  dicts of \<^verbatim>\<open>State\<close> are only looked up and assigned by key, so they are maps.
\<close>

record EntryState =
  rank :: int
  page :: int
  shift :: "string option"
  date :: "string option"
  raw :: string
  updated_at :: isotext

record AlertState =
  sent_at :: isotext

record State =
  entries :: "string \<rightharpoonup> (string \<rightharpoonup> EntryState)"
  alerts :: "string \<rightharpoonup> AlertState"

definition empty_State :: State where
  "empty_State = \<lparr>entries = Map.empty, alerts = Map.empty\<rparr>"

text \<open>\<^verbatim>\<open>State.best_previous\<close>: \<^verbatim>\<open>self.entries.get(label, {}).get(target)\<close>.\<close>

definition best_previous :: "State \<Rightarrow> string \<Rightarrow> string \<Rightarrow> EntryState option" where
  "best_previous st lbl tgt =
     (case entries st lbl of None \<Rightarrow> None | Some targets \<Rightarrow> targets tgt)"

text \<open>
  \<^verbatim>\<open>State.record_entry\<close>; \<open>now\<close> is the reading of \<^verbatim>\<open>datetime.utcnow()\<close>.
  \<^verbatim>\<open>
  label_entries = self.entries.setdefault(entry.label, {})
  label_entries[entry.target] = EntryState(rank=entry.rank, page=entry.page,
      shift=entry.shift, date=entry.date, raw=entry.raw,
      updated_at=datetime.utcnow().isoformat())
  \<close>
\<close>

definition EntryState_of :: "Entry \<Rightarrow> int \<Rightarrow> EntryState" where
  "EntryState_of entry now =
     \<lparr>EntryState.rank = Entry.rank entry,
      EntryState.page = Entry.page entry,
      EntryState.shift = Entry.shift entry,
      EntryState.date = Entry.date entry,
      EntryState.raw = Entry.raw entry,
      updated_at = isoformat now\<rparr>"

definition record_entry :: "State \<Rightarrow> Entry \<Rightarrow> int \<Rightarrow> State" where
  "record_entry st entry now =
     (let label_entries =
            (case entries st (Entry.label entry) of None \<Rightarrow> Map.empty | Some m \<Rightarrow> m)
      in st\<lparr>entries := (entries st)
              (Entry.label entry \<mapsto>
                 label_entries(Entry.target entry \<mapsto> EntryState_of entry now))\<rparr>)"

text \<open>
  \<^verbatim>\<open>State.should_alert\<close>:
  \<^verbatim>\<open>
  if key not in self.alerts:
      return True
  sent = datetime.fromisoformat(self.alerts[key].sent_at)
  return datetime.utcnow() - sent >= timedelta(minutes=cooldown_minutes)
  \<close>
\<close>

definition should_alert :: "State \<Rightarrow> string \<Rightarrow> int \<Rightarrow> int \<Rightarrow> error + bool" where
  "should_alert st key cooldown_minutes now =
     (case alerts st key of
        None \<Rightarrow> Inr True
      | Some a \<Rightarrow>
          (case fromisoformat (sent_at a) of
             Inl e \<Rightarrow> Inl e
           | Inr sent \<Rightarrow>
               (case utcnow_minus now sent of
                  Inl e \<Rightarrow> Inl e
                | Inr elapsed \<Rightarrow>
                    (case timedelta_minutes cooldown_minutes of
                       Inl e \<Rightarrow> Inl e
                     | Inr cooldown \<Rightarrow> Inr (elapsed \<ge> cooldown)))))"

text \<open>\<^verbatim>\<open>State.record_alert\<close>: \<^verbatim>\<open>self.alerts[key] = AlertState(sent_at=now)\<close>.\<close>

definition record_alert :: "State \<Rightarrow> string \<Rightarrow> int \<Rightarrow> State" where
  "record_alert st key now = st\<lparr>alerts := (alerts st)(key \<mapsto> \<lparr>sent_at = isoformat now\<rparr>)\<rparr>"

subsection \<open>The state file\<close>

text \<open>
  The state file holds a JSON document, written by \<^verbatim>\<open>json.dump\<close> and read by
  \<^verbatim>\<open>json.load\<close>. The file is modelled by what \<^verbatim>\<open>load_state\<close> finds: no file, a
  content that \<^verbatim>\<open>json.load\<close> rejects with \<^verbatim>\<open>JSONDecodeError\<close>, a JSON value that
  is not an object, or an object. In an object every key may be missing; a field
  that is present has the type the dataclasses give it (the only documents the
  program writes). \<open>None\<close> stands for a missing key, and for \<^verbatim>\<open>shift\<close> and
  \<^verbatim>\<open>date\<close> also for \<^verbatim>\<open>null\<close>.
\<close>

record entry_doc =
  rank_d :: "int option"
  page_d :: "int option"
  shift_d :: "string option"
  date_d :: "string option"
  raw_d :: "string option"
  updated_at_d :: "isotext option"

record alert_doc =
  sent_at_d :: "isotext option"

record payload =
  entries_p :: "(string \<rightharpoonup> (string \<rightharpoonup> entry_doc)) option"
  alerts_p :: "(string \<rightharpoonup> alert_doc) option"

datatype state_file = No_file | Malformed | Non_object | Document payload

text \<open>
  \<^verbatim>\<open>load_state\<close>; \<open>now\<close> is the reading of \<^verbatim>\<open>datetime.utcnow()\<close>.
  \<^verbatim>\<open>
  if not path.exists():
      return State()
  try:
      with path.open("r", encoding="utf-8") as fh:
          payload = json.load(fh)
  except json.JSONDecodeError:
      return State()
  entries_payload = payload.get("entries", {})
  alerts_payload = payload.get("alerts", {})
  ...
      entries[label][target] = EntryState(
          rank=values.get("rank", 9999), page=values.get("page", 9999),
          shift=values.get("shift"), date=values.get("date"),
          raw=values.get("raw", ""),
          updated_at=values.get("updated_at", datetime.utcnow().isoformat()))
  ...
      alerts[key] = AlertState(sent_at=values.get("sent_at", datetime.utcnow().isoformat()))
  \<close>
  A JSON value that is not an object has no \<^verbatim>\<open>get\<close>: \<^verbatim>\<open>AttributeError\<close>.
\<close>

definition get_default :: "'a option \<Rightarrow> 'a \<Rightarrow> 'a" where
  "get_default field dflt = (case field of None \<Rightarrow> dflt | Some v \<Rightarrow> v)"

definition load_entry :: "int \<Rightarrow> entry_doc \<Rightarrow> EntryState" where
  "load_entry now values =
     \<lparr>EntryState.rank = get_default (rank_d values) 9999,
      EntryState.page = get_default (page_d values) 9999,
      EntryState.shift = shift_d values,
      EntryState.date = date_d values,
      EntryState.raw = get_default (raw_d values) [],
      updated_at = get_default (updated_at_d values) (isoformat now)\<rparr>"

definition load_alert :: "int \<Rightarrow> alert_doc \<Rightarrow> AlertState" where
  "load_alert now values = \<lparr>sent_at = get_default (sent_at_d values) (isoformat now)\<rparr>"

definition load_state :: "state_file \<Rightarrow> int \<Rightarrow> error + State" where
  "load_state file now =
     (case file of
        No_file \<Rightarrow> Inr empty_State
      | Malformed \<Rightarrow> Inr empty_State
      | Non_object \<Rightarrow> Inl AttributeError
      | Document p \<Rightarrow>
          (let entries_payload = get_default (entries_p p) Map.empty;
               alerts_payload = get_default (alerts_p p) Map.empty
           in Inr \<lparr>entries = (\<lambda>lbl. map_option (\<lambda>targets tgt. map_option (load_entry now) (targets tgt))
                                     (entries_payload lbl)),
                   alerts = (\<lambda>key. map_option (load_alert now) (alerts_payload key))\<rparr>))"

text \<open>
  \<^verbatim>\<open>save_state\<close> replaces the file by the document of the state: every entry and
  alert with all the fields of its dataclass (\<^verbatim>\<open>entry.__dict__\<close>).
\<close>

definition dump_entry :: "EntryState \<Rightarrow> entry_doc" where
  "dump_entry e =
     \<lparr>rank_d = Some (EntryState.rank e),
      page_d = Some (EntryState.page e),
      shift_d = EntryState.shift e,
      date_d = EntryState.date e,
      raw_d = Some (EntryState.raw e),
      updated_at_d = Some (updated_at e)\<rparr>"

definition dump_alert :: "AlertState \<Rightarrow> alert_doc" where
  "dump_alert a = \<lparr>sent_at_d = Some (sent_at a)\<rparr>"

definition save_state :: "State \<Rightarrow> state_file" where
  "save_state st =
     Document
       \<lparr>entries_p = Some (\<lambda>lbl. map_option (\<lambda>targets tgt. map_option dump_entry (targets tgt))
                                   (entries st lbl)),
        alerts_p = Some (\<lambda>key. map_option dump_alert (alerts st key))\<rparr>"

section \<open>Parsing the lines of a page\<close>

subsection \<open>The regular expressions\<close>

text \<open>
  \<^verbatim>\<open>parser.py\<close> searches each line with four compiled patterns. A line is a list of
  characters below 256. Python's \<^verbatim>\<open>re\<close> matches by backtracking: at a position a
  pattern has a list of ways to match, in the order in which the engine tries them,
  and the first one that lets the rest of the pattern match is taken. A position is
  the text before it, reversed, and the text from it on; a matcher gives the
  positions at which a match from a position can end, in that order.
\<close>

type_synonym pos = "string \<times> string"
type_synonym matcher = "pos \<Rightarrow> pos list"

definition is_digit :: "char \<Rightarrow> bool" where
  "is_digit c = (let n = of_char c :: nat in 48 \<le> n \<and> n \<le> 57)"

text \<open>\<^verbatim>\<open>\w\<close> for a \<^verbatim>\<open>str\<close> pattern: alphanumeric characters and the underscore.\<close>

definition is_word :: "char \<Rightarrow> bool" where
  "is_word c =
     (let n = of_char c :: nat
      in (48 \<le> n \<and> n \<le> 57) \<or> (65 \<le> n \<and> n \<le> 90) \<or> n = 95 \<or> (97 \<le> n \<and> n \<le> 122) \<or>
         n = 170 \<or> n = 178 \<or> n = 179 \<or> n = 181 \<or> n = 185 \<or> n = 186 \<or>
         (188 \<le> n \<and> n \<le> 190) \<or> (192 \<le> n \<and> n \<le> 214) \<or> (216 \<le> n \<and> n \<le> 246) \<or>
         248 \<le> n)"

definition is_upper_AZ :: "char \<Rightarrow> bool" where
  "is_upper_AZ c = (let n = of_char c :: nat in 65 \<le> n \<and> n \<le> 90)"

definition char_class :: "(char \<Rightarrow> bool) \<Rightarrow> matcher" where
  "char_class P p =
     (case snd p of [] \<Rightarrow> [] | c # cs \<Rightarrow> if P c then [(c # fst p, cs)] else [])"

definition lit :: "char \<Rightarrow> matcher" where
  "lit c = char_class (\<lambda>x. x = c)"

definition digit :: matcher where
  "digit = char_class is_digit"

definition eps :: matcher where
  "eps p = [p]"

definition seq :: "matcher \<Rightarrow> matcher \<Rightarrow> matcher" where
  "seq m1 m2 p = concat (map m2 (m1 p))"

definition alt :: "matcher \<Rightarrow> matcher \<Rightarrow> matcher" where
  "alt m1 m2 p = m1 p @ m2 p"

text \<open>\<^verbatim>\<open>m?\<close>, greedy: first with \<open>m\<close>, then without.\<close>

definition opt :: "matcher \<Rightarrow> matcher" where
  "opt m = alt m eps"

text \<open>\<^verbatim>\<open>m{n}\<close>\<close>

fun exactly :: "nat \<Rightarrow> matcher \<Rightarrow> matcher" where
  "exactly 0 m = eps"
| "exactly (Suc n) m = seq m (exactly n m)"

text \<open>\<^verbatim>\<open>[...]*\<close> for a character class, greedy: the longest run first.\<close>

fun star_class :: "(char \<Rightarrow> bool) \<Rightarrow> string \<Rightarrow> string \<Rightarrow> pos list" where
  "star_class P pre [] = [(pre, [])]"
| "star_class P pre (c # cs) =
     (if P c then star_class P (c # pre) cs @ [(pre, c # cs)] else [(pre, c # cs)])"

definition star :: "(char \<Rightarrow> bool) \<Rightarrow> matcher" where
  "star P p = star_class P (fst p) (snd p)"

text \<open>\<^verbatim>\<open>\b\<close>: exactly one of the characters on the two sides is a word character.\<close>

definition word_before :: "pos \<Rightarrow> bool" where
  "word_before p = (case fst p of [] \<Rightarrow> False | c # cs \<Rightarrow> is_word c)"

definition word_after :: "pos \<Rightarrow> bool" where
  "word_after p = (case snd p of [] \<Rightarrow> False | c # cs \<Rightarrow> is_word c)"

definition word_boundary :: matcher where
  "word_boundary p = (if word_before p \<noteq> word_after p then [p] else [])"

text \<open>The text between a position and a later one.\<close>

definition matched :: "pos \<Rightarrow> pos \<Rightarrow> string" where
  "matched p q = take (length (snd p) - length (snd q)) (snd p)"

text \<open>
  \<^verbatim>\<open>pattern.search\<close>: the first way to match at the leftmost position that has one;
  the result is the start and the end of the match.
\<close>

fun search_from :: "matcher \<Rightarrow> string \<Rightarrow> string \<Rightarrow> (pos \<times> pos) option" where
  "search_from m pre [] = (case m (pre, []) of [] \<Rightarrow> None | q # qs \<Rightarrow> Some ((pre, []), q))"
| "search_from m pre (c # cs) =
     (case m (pre, c # cs) of
        [] \<Rightarrow> search_from m (c # pre) cs
      | q # qs \<Rightarrow> Some ((pre, c # cs), q))"

definition search :: "matcher \<Rightarrow> pos \<Rightarrow> (pos \<times> pos) option" where
  "search m p = search_from m (fst p) (snd p)"

text \<open>
  \<^verbatim>\<open>pattern.findall\<close> for a pattern whose only group is the whole match: the texts
  of the successive matches, each search starting where the previous match ended.
  The patterns below never match the empty text, so every search starts further
  to the right.
\<close>

function findall_from :: "matcher \<Rightarrow> pos \<Rightarrow> string list" where
  "findall_from m p =
     (case search m p of
        None \<Rightarrow> []
      | Some (s, e) \<Rightarrow>
          if length (snd e) < length (snd p) then matched s e # findall_from m e
          else [matched s e])"
  by pat_completeness auto
termination
  by (relation "measure (\<lambda>(m, p). length (snd p))") auto

definition findall :: "matcher \<Rightarrow> string \<Rightarrow> string list" where
  "findall m line = findall_from m ([], line)"

text \<open>\<^verbatim>\<open>MATRICULE_REGEX = re.compile(r"\b([A-Z]\d{4})\b")\<close>\<close>

definition MATRICULE_REGEX :: matcher where
  "MATRICULE_REGEX =
     seq word_boundary (seq (char_class is_upper_AZ) (seq (exactly 4 digit) word_boundary))"

text \<open>\<^verbatim>\<open>RANK_REGEX = re.compile(r"\b(\d{1,3})\b")\<close>\<close>

definition RANK_REGEX :: matcher where
  "RANK_REGEX = seq word_boundary (seq digit (seq (opt (seq digit (opt digit))) word_boundary))"

text \<open>
  \<^verbatim>\<open>DATE_REGEX = re.compile(r"\b((\d{4}-\d{2}-\d{2})|(\d{1,2}/\d{1,2}/\d{4}))\b")\<close>
\<close>

definition digits_1_2 :: matcher where
  "digits_1_2 = seq digit (opt digit)"

definition DATE_REGEX :: matcher where
  "DATE_REGEX =
     seq word_boundary
       (seq (alt (seq (exactly 4 digit) (seq (lit CHR ''-'') (seq (exactly 2 digit)
                    (seq (lit CHR ''-'') (exactly 2 digit)))))
                 (seq digits_1_2 (seq (lit CHR ''/'') (seq digits_1_2
                    (seq (lit CHR ''/'') (exactly 4 digit))))))
            word_boundary)"

text \<open>
  Python's white space, for \<^verbatim>\<open>\s\<close>, \<^verbatim>\<open>str.split()\<close> and \<^verbatim>\<open>str.strip()\<close>, among
  the characters below 256.
\<close>

definition isspace :: "char \<Rightarrow> bool" where
  "isspace c = (let n = of_char c :: nat
                in (9 \<le> n \<and> n \<le> 13) \<or> (28 \<le> n \<and> n \<le> 32) \<or> n = 133 \<or> n = 160)"

text \<open>
  \<^verbatim>\<open>SHIFT_REGEX = re.compile(r"(\d{1,2}[:h]\d{2})\s*[-\xe0]\s*(\d{1,2}[:h]\d{2})")\<close>.
  The two groups are needed, so the matcher of a time is used twice and the ends of
  the groups are kept: the first way to match gives the end of the first group, the
  start of the second and its end. The class \<^verbatim>\<open>[-\xe0]\<close> holds the hyphen and
  the letter a with a grave accent, character 224.
\<close>

definition time_token :: matcher where
  "time_token =
     seq digits_1_2 (seq (char_class (\<lambda>c. c = CHR '':'' \<or> c = CHR ''h'')) (exactly 2 digit))"

definition shift_separator :: matcher where
  "shift_separator =
     seq (star isspace)
       (seq (char_class (\<lambda>c. c = CHR ''-'' \<or> c = char_of (224 :: nat))) (star isspace))"

definition SHIFT_REGEX :: "pos \<Rightarrow> (pos \<times> pos \<times> pos) list" where
  "SHIFT_REGEX p =
     concat (map (\<lambda>e1. concat (map (\<lambda>s2. map (\<lambda>e2. (e1, s2, e2)) (time_token s2))
                                     (shift_separator e1)))
                 (time_token p))"

fun search_shift :: "string \<Rightarrow> string \<Rightarrow> (string \<times> string) option" where
  "search_shift pre [] = None"
| "search_shift pre (c # cs) =
     (case SHIFT_REGEX (pre, c # cs) of
        [] \<Rightarrow> search_shift (c # pre) cs
      | (e1, s2, e2) # qs \<Rightarrow> Some (matched (pre, c # cs) e1, matched s2 e2))"

subsection \<open>Rank, shift and date of a line\<close>

text \<open>\<^verbatim>\<open>int(s)\<close> for a text of decimal digits, which is what the groups above hold.\<close>

definition int_of_digits :: "string \<Rightarrow> int" where
  "int_of_digits s = foldl (\<lambda>n c. 10 * n + (int (of_char c) - 48)) 0 s"

text \<open>
  \<^verbatim>\<open>_extract_rank\<close>: the first match of \<^verbatim>\<open>RANK_REGEX\<close> whose value is positive,
  or 9999.
\<close>

fun first_positive :: "string list \<Rightarrow> int" where
  "first_positive [] = 9999"
| "first_positive (r # rs) = (if int_of_digits r > 0 then int_of_digits r else first_positive rs)"

definition extract_rank :: "string \<Rightarrow> int" where
  "extract_rank line = first_positive (findall RANK_REGEX line)"

text \<open>
  \<^verbatim>\<open>_normalise_time\<close>:
  \<^verbatim>\<open>
  parts = value.replace("h", ":").split(":")
  hour = int(parts[0])
  minute = int(parts[1]) if len(parts) > 1 else 0
  return f"{hour:02d}:{minute:02d}"
  \<close>
\<close>

fun split_on :: "char \<Rightarrow> string \<Rightarrow> string list" where
  "split_on sep [] = [[]]"
| "split_on sep (c # cs) =
     (case split_on sep cs of
        [] \<Rightarrow> [[c]]
      | part # parts \<Rightarrow> if c = sep then [] # part # parts else (c # part) # parts)"

definition digit_char :: "nat \<Rightarrow> char" where
  "digit_char d = char_of (48 + d)"

fun str_nat :: "nat \<Rightarrow> string" where
  "str_nat n = (if n < 10 then [digit_char n] else str_nat (n div 10) @ [digit_char (n mod 10)])"

text \<open>\<^verbatim>\<open>f"{n:02d}"\<close> and \<^verbatim>\<open>f"{n:04d}"\<close> for a natural number.\<close>

definition zero_pad :: "nat \<Rightarrow> nat \<Rightarrow> string" where
  "zero_pad width n = replicate (width - length (str_nat n)) CHR ''0'' @ str_nat n"

definition normalise_time :: "string \<Rightarrow> string" where
  "normalise_time v =
     (let parts = split_on CHR '':'' (map (\<lambda>c. if c = CHR ''h'' then CHR '':'' else c) v);
          hour = int_of_digits (parts ! 0);
          minute = (if length parts > 1 then int_of_digits (parts ! 1) else 0)
      in zero_pad 2 (nat hour) @ '':'' @ zero_pad 2 (nat minute))"

text \<open>\<^verbatim>\<open>_extract_shift\<close>\<close>

definition extract_shift :: "string \<Rightarrow> string option" where
  "extract_shift line =
     (case search_shift [] line of
        None \<Rightarrow> None
      | Some (start, finish) \<Rightarrow> Some (normalise_time start @ ''-'' @ normalise_time finish))"

text \<open>
  \<^verbatim>\<open>datetime.strptime(value, fmt)\<close> for the two formats of \<^verbatim>\<open>_normalise_date\<close>.
  \<^verbatim>\<open>strptime\<close> turns a format into a regular expression, with
  \<^verbatim>\<open>3[0-1]|[1-2]\d|0[1-9]|[1-9]| [1-9]\<close> for \<^verbatim>\<open>%d\<close>,
  \<^verbatim>\<open>1[0-2]|0[1-9]|[1-9]\<close> for \<^verbatim>\<open>%m\<close> and \<^verbatim>\<open>\d\d\d\d\<close> for \<^verbatim>\<open>%Y\<close>,
  matches the value from its start, refuses a value with text left over, and builds
  the date, which must exist: a year from 1 to 9999 and a day of that month.
\<close>

definition char_range :: "char \<Rightarrow> char \<Rightarrow> matcher" where
  "char_range lo hi = char_class (\<lambda>c. (of_char lo :: nat) \<le> of_char c \<and> (of_char c :: nat) \<le> of_char hi)"

definition day_field :: matcher where
  "day_field =
     alt (seq (lit CHR ''3'') (char_range CHR ''0'' CHR ''1''))
    (alt (seq (char_range CHR ''1'' CHR ''2'') digit)
    (alt (seq (lit CHR ''0'') (char_range CHR ''1'' CHR ''9''))
    (alt (char_range CHR ''1'' CHR ''9'')
         (seq (lit CHR '' '') (char_range CHR ''1'' CHR ''9'')))))"

definition month_field :: matcher where
  "month_field =
     alt (seq (lit CHR ''1'') (char_range CHR ''0'' CHR ''2''))
    (alt (seq (lit CHR ''0'') (char_range CHR ''1'' CHR ''9''))
         (char_range CHR ''1'' CHR ''9''))"

definition year_field :: matcher where
  "year_field = exactly 4 digit"

definition is_leap :: "int \<Rightarrow> bool" where
  "is_leap y = (y mod 4 = 0 \<and> (y mod 100 \<noteq> 0 \<or> y mod 400 = 0))"

definition days_in_month :: "int \<Rightarrow> int \<Rightarrow> int" where
  "days_in_month y m =
     (if m = 2 then (if is_leap y then 29 else 28)
      else if m = 4 \<or> m = 6 \<or> m = 9 \<or> m = 11 then 30 else 31)"

definition date_exists :: "int \<Rightarrow> int \<Rightarrow> int \<Rightarrow> bool" where
  "date_exists y m d =
     (1 \<le> y \<and> y \<le> 9999 \<and> 1 \<le> m \<and> m \<le> 12 \<and> 1 \<le> d \<and> d \<le> days_in_month y m)"

text \<open>
  The fields of the first way to match three fields separated by slashes, from the
  start of the value. \<^verbatim>\<open>int\<close> ignores the space that \<^verbatim>\<open>%d\<close> admits.
\<close>

definition three_fields :: "matcher \<Rightarrow> matcher \<Rightarrow> matcher \<Rightarrow> string \<Rightarrow> (string \<times> string \<times> string \<times> pos) list" where
  "three_fields f1 f2 f3 v =
     concat (map (\<lambda>e1.
       concat (map (\<lambda>s2.
         concat (map (\<lambda>e2.
           concat (map (\<lambda>s3.
             map (\<lambda>e3. (matched ([], v) e1, matched s2 e2, matched s3 e3, e3)) (f3 s3))
             (lit CHR ''/'' e2)))
           (f2 s2)))
         (lit CHR ''/'' e1)))
       (f1 ([], v)))"

definition field_value :: "string \<Rightarrow> int" where
  "field_value s = int_of_digits (filter (\<lambda>c. c \<noteq> CHR '' '') s)"

definition strptime_dmy :: "string \<Rightarrow> error + (int \<times> int \<times> int)" where
  "strptime_dmy v =
     (case three_fields day_field month_field year_field v of
        [] \<Rightarrow> Inl ValueError
      | (d, m, y, e) # rest \<Rightarrow>
          if snd e \<noteq> [] then Inl ValueError
          else if date_exists (field_value y) (field_value m) (field_value d)
          then Inr (field_value y, field_value m, field_value d)
          else Inl ValueError)"

definition strptime_ymd :: "string \<Rightarrow> error + (int \<times> int \<times> int)" where
  "strptime_ymd v =
     (case three_fields year_field month_field day_field v of
        [] \<Rightarrow> Inl ValueError
      | (y, m, d, e) # rest \<Rightarrow>
          if snd e \<noteq> [] then Inl ValueError
          else if date_exists (field_value y) (field_value m) (field_value d)
          then Inr (field_value y, field_value m, field_value d)
          else Inl ValueError)"

text \<open>
  \<^verbatim>\<open>strftime("%Y-%m-%d")\<close>. The C library writes the year without leading zeros,
  and the month and the day with two digits.
\<close>

definition strftime_ymd :: "int \<times> int \<times> int \<Rightarrow> string" where
  "strftime_ymd t =
     (case t of (y, m, d) \<Rightarrow> str_nat (nat y) @ ''-'' @ zero_pad 2 (nat m) @ ''-'' @ zero_pad 2 (nat d))"

text \<open>
  \<^verbatim>\<open>_normalise_date\<close>:
  \<^verbatim>\<open>
  try:
      return datetime.strptime(value, "%d/%m/%Y").strftime("%Y-%m-%d")
  except ValueError:
      try:
          return datetime.strptime(value, "%Y/%m/%d").strftime("%Y-%m-%d")
      except ValueError:
          return value
  \<close>
\<close>

definition normalise_date :: "string \<Rightarrow> string" where
  "normalise_date v =
     (case strptime_dmy v of
        Inr t \<Rightarrow> strftime_ymd t
      | Inl e \<Rightarrow>
          (case strptime_ymd v of
             Inr t \<Rightarrow> strftime_ymd t
           | Inl e' \<Rightarrow> v))"

text \<open>
  \<^verbatim>\<open>_extract_date\<close>:
  \<^verbatim>\<open>
  match = DATE_REGEX.search(line)
  if not match:
      return None
  value = match.group(1)
  if "-" in value:
      return value
  return _normalise_date(value)
  \<close>
\<close>

definition extract_date :: "string \<Rightarrow> string option" where
  "extract_date line =
     (case search DATE_REGEX ([], line) of
        None \<Rightarrow> None
      | Some (s, e) \<Rightarrow>
          (let v = matched s e
           in if CHR ''-'' \<in> set v then Some v else Some (normalise_date v)))"

subsection \<open>The entries of a page\<close>

text \<open>
  \<^verbatim>\<open>" ".join(raw_line.split())\<close>: the runs of white space become one space, and
  those at the ends disappear.
\<close>

fun split_ws :: "string \<Rightarrow> string \<Rightarrow> string list" where
  "split_ws word [] = (if word = [] then [] else [rev word])"
| "split_ws word (c # cs) =
     (if isspace c then (if word = [] then split_ws [] cs else rev word # split_ws [] cs)
      else split_ws (c # word) cs)"

fun join_space :: "string list \<Rightarrow> string" where
  "join_space [] = []"
| "join_space [w] = w"
| "join_space (w # ws) = w @ '' '' @ join_space ws"

definition normalise_line :: "string \<Rightarrow> string" where
  "normalise_line raw_line = join_space (split_ws [] raw_line)"

text \<open>
  \<^verbatim>\<open>str.upper()\<close>. It is applied to the configured targets and to the matches of
  \<^verbatim>\<open>MATRICULE_REGEX\<close>, which consist of a letter from A to Z and four digits; a
  target equals such a match after \<^verbatim>\<open>upper()\<close> exactly when it does after the
  letters from a to z are raised.
\<close>

definition upper :: "string \<Rightarrow> string" where
  "upper s =
     map (\<lambda>c. let n = of_char c :: nat in if 97 \<le> n \<and> n \<le> 122 then char_of (n - 32) else c) s"

text \<open>
  \<^verbatim>\<open>parse_entries\<close>:
  \<^verbatim>\<open>
  targets_set = {target.upper() for target in targets}
  for raw_line in lines:
      line = " ".join(raw_line.split())
      matches = MATRICULE_REGEX.findall(line)
      matched_targets = [match for match in matches if match.upper() in targets_set]
      if not matched_targets:
          continue
      rank = _extract_rank(line); shift = _extract_shift(line); date = _extract_date(line)
      for target in matched_targets:
          entries.append(Entry(label=label, page=page, rank=rank, target=target.upper(),
                               shift=shift, date=date, raw=line))
  \<close>
\<close>

definition line_entries :: "string \<Rightarrow> string \<Rightarrow> int \<Rightarrow> string list \<Rightarrow> Entry list" where
  "line_entries raw_line lbl pg targets =
     (let line = normalise_line raw_line;
          matches = findall MATRICULE_REGEX line;
          matched_targets = filter (\<lambda>m. upper m \<in> set (map upper targets)) matches
      in map (\<lambda>tgt. \<lparr>label = lbl, page = pg, rank = extract_rank line, target = upper tgt,
                      shift = extract_shift line, date = extract_date line, raw = line\<rparr>)
             matched_targets)"

definition parse_entries :: "string list \<Rightarrow> string \<Rightarrow> int \<Rightarrow> string list \<Rightarrow> Entry list" where
  "parse_entries lines lbl pg targets = concat (map (\<lambda>raw_line. line_entries raw_line lbl pg targets) lines)"

section \<open>Selecting the best entry of a pass\<close>

text \<open>
  \<^verbatim>\<open>watcher.py\<close>, first loop of \<^verbatim>\<open>Watcher._handle_entries\<close>:
  \<^verbatim>\<open>
  best: Dict[tuple[str, str], Entry] = {}
  for entry in entries:
      key = (entry.label, entry.target)
      previous = best.get(key)
      if previous is None or entry.rank < previous.rank
            or (entry.rank == previous.rank and entry.page < previous.page):
          best[key] = entry
  \<close>
  A Python dict iterates in the order in which its keys were first inserted, and
  assigning to an existing key keeps the key's place. The dict is therefore an
  association list: \<^const>\<open>AList.update\<close> overwrites in place and appends a new key.
\<close>

type_synonym best_dict = "((string \<times> string) \<times> Entry) list"

definition entry_key :: "Entry \<Rightarrow> string \<times> string" where
  "entry_key entry = (Entry.label entry, Entry.target entry)"

definition replaces :: "Entry \<Rightarrow> Entry option \<Rightarrow> bool" where
  "replaces entry previous =
     (case previous of
        None \<Rightarrow> True
      | Some p \<Rightarrow> Entry.rank entry < Entry.rank p \<or>
          (Entry.rank entry = Entry.rank p \<and> Entry.page entry < Entry.page p))"

definition best_step :: "best_dict \<Rightarrow> Entry \<Rightarrow> best_dict" where
  "best_step best entry =
     (let key = entry_key entry;
          previous = map_of best key
      in if replaces entry previous then AList.update key entry best else best)"

definition select_best :: "Entry list \<Rightarrow> best_dict" where
  "select_best new_entries = foldl best_step [] new_entries"


section \<open>Configuration\<close>

text \<open>
  \<^verbatim>\<open>config.py\<close>, dataclasses \<^verbatim>\<open>LoginConfig\<close>, \<^verbatim>\<open>DiscordConfig\<close>, \<^verbatim>\<open>WatchConfig\<close> and
  \<^verbatim>\<open>AppConfig\<close>, with the fields that the watcher reads. The paths, the timeouts
  and the retry settings are used only inside the session and the file system,
  which are part of the environment below.
\<close>

record LoginConfig =
  url :: string
  username :: string
  password :: string
  enabled :: bool

record DiscordConfig =
  webhook_url :: string
  ping :: string
  top_template :: string
  warn_template :: string
  update_template :: string

record WatchConfig =
  list_urls :: "string list"
  list_labels :: "string list"
  target_ids :: "string list"
  page_limit :: int
  sleep_seconds :: int
  cooldown_minutes :: int
  top_threshold :: int
  warn_threshold :: int

record AppConfig =
  login_primary :: "LoginConfig option"
  login_secondary :: "LoginConfig option"
  discord :: "DiscordConfig option"
  watch :: WatchConfig

text \<open>\<^verbatim>\<open>str(n)\<close> for an integer: its decimal digits, with a sign when negative.\<close>

definition str_int :: "int \<Rightarrow> string" where
  "str_int i = (if i < 0 then CHR ''-'' # str_nat (nat (- i)) else str_nat (nat i))"

text \<open>
  \<^verbatim>\<open>WatchConfig.paired_labels\<close>: every URL with the label at its index, or
  \<^verbatim>\<open>f"Liste {index}"\<close> when the labels run out.
\<close>

definition paired_labels :: "WatchConfig \<Rightarrow> (string \<times> string) list" where
  "paired_labels wc =
     map (\<lambda>(index, u).
            (u, if index < length (list_labels wc) then list_labels wc ! index
                else ''Liste '' @ str_nat index))
         (enumerate 0 (list_urls wc))"

section \<open>The environment\<close>

text \<open>
  \<^verbatim>\<open>http.py\<close>, dataclass \<^verbatim>\<open>FetchResult\<close>; \<^verbatim>\<open>content_type\<close> is the property computed
  from the headers.
\<close>

record FetchResult =
  status_code :: int
  content :: string
  content_type :: string

text \<open>
  What the program calls and does not define, for one pass: the clock, the session
  (\<^verbatim>\<open>WatcherSession.login\<close> and \<^verbatim>\<open>WatcherSession.fetch\<close>, which return or raise),
  \<^verbatim>\<open>hashlib.sha256(...).hexdigest()\<close>, the text extraction of \<^verbatim>\<open>pdfminer\<close> and
  \<^verbatim>\<open>BeautifulSoup\<close> and the decoding of bytes (each followed by
  \<^verbatim>\<open>splitlines()\<close>), \<^verbatim>\<open>requests.post\<close> to the webhook (the status of the
  response, or an exception) and \<^verbatim>\<open>str.format\<close>. The clock is read as one
  time for the whole pass; the session and the webhook answer a request by its URL
  and its message.
\<close>

record env =
  utcnow :: int
  submit_login :: "LoginConfig \<Rightarrow> error option"
  fetch :: "string \<Rightarrow> error + FetchResult"
  sha256 :: "string \<Rightarrow> string"
  pdf_lines :: "string \<Rightarrow> error + string list"
  html_lines :: "string \<Rightarrow> string list"
  decoded_lines :: "string \<Rightarrow> string list"
  post :: "string \<Rightarrow> string \<Rightarrow> error + int"
  str_format :: "string \<Rightarrow> (string \<times> string) list \<Rightarrow> error + string"

text \<open>
  The watcher: its in-memory \<^verbatim>\<open>State\<close>, the state file, and the messages that
  the webhook has accepted so far.
\<close>

record world =
  state :: State
  disk :: state_file
  outbox :: "string list"

text \<open>
  A step either returns or raises; either way it leaves a world behind, which is
  what the \<^verbatim>\<open>finally\<close> clause of \<^verbatim>\<open>Watcher.run\<close> saves.
\<close>

datatype outcome = Done world | Raised error world

section \<open>Notifications\<close>

text \<open>\<^verbatim>\<open>str.strip()\<close> removes the white space at both ends.\<close>

definition strip :: "string \<Rightarrow> string" where
  "strip s = rev (dropWhile isspace (rev (dropWhile isspace s)))"

text \<open>
  \<^verbatim>\<open>notifier.py\<close>, \<^verbatim>\<open>DiscordNotifier.send\<close>, for an enabled notifier:
  \<^verbatim>\<open>
  response = requests.post(self._config.webhook_url, data=json.dumps(payload), ...)
  try:
      response.raise_for_status()
  except requests.HTTPError as exc:
      LOGGER.error(...)
      raise
  \<close>
  \<^verbatim>\<open>raise_for_status\<close> raises for a status from 400 to 599.
\<close>

definition send :: "env \<Rightarrow> DiscordConfig \<Rightarrow> string \<Rightarrow> world \<Rightarrow> outcome" where
  "send ev d message w =
     (case post ev (webhook_url d) message of
        Inl e \<Rightarrow> Raised e w
      | Inr status \<Rightarrow>
          if 400 \<le> status \<and> status < 600 then Raised (HTTPError status) w
          else Done (w\<lparr>outbox := outbox w @ [message]\<rparr>))"

text \<open>
  \<^verbatim>\<open>DiscordNotifier.format_message\<close>, for an enabled notifier:
  \<^verbatim>\<open>
  ping = self._config.ping.strip()
  context.setdefault("ping", ping)
  return template.format(**context)
  \<close>
\<close>

definition format_message ::
  "env \<Rightarrow> DiscordConfig \<Rightarrow> string \<Rightarrow> (string \<times> string) list \<Rightarrow> error + string" where
  "format_message ev d template context =
     str_format ev template
       (if ''ping'' \<in> set (map fst context) then context
        else context @ [(''ping'', strip (ping d))])"

text \<open>\<^verbatim>\<open>f"{x}"\<close> for an optional string, and \<^verbatim>\<open>x or "?"\<close>.\<close>

definition str_opt :: "string option \<Rightarrow> string" where
  "str_opt x = (case x of None \<Rightarrow> ''None'' | Some s \<Rightarrow> s)"

definition or_question :: "string option \<Rightarrow> string" where
  "or_question x = (case x of None \<Rightarrow> ''?'' | Some s \<Rightarrow> if s = [] then ''?'' else s)"

text \<open>
  \<^verbatim>\<open>key = f"{entry.label}|{entry.target}|{entry.date}|{entry.shift}|{threshold}"\<close>
\<close>

definition alert_key :: "Entry \<Rightarrow> string \<Rightarrow> string" where
  "alert_key entry threshold =
     Entry.label entry @ ''|'' @ Entry.target entry @ ''|'' @ str_opt (Entry.date entry)
       @ ''|'' @ str_opt (Entry.shift entry) @ ''|'' @ threshold"

definition context_of :: "Entry \<Rightarrow> (string \<times> string) list" where
  "context_of entry =
     [(''label'', Entry.label entry),
      (''rank'', str_int (Entry.rank entry)),
      (''target'', Entry.target entry),
      (''shift'', or_question (Entry.shift entry)),
      (''date'', or_question (Entry.date entry))]"

text \<open>
  \<^verbatim>\<open>watcher.py\<close>, \<^verbatim>\<open>Watcher._maybe_notify\<close>. The notifier is enabled when a
  \<^verbatim>\<open>DiscordConfig\<close> is configured. The argument \<^verbatim>\<open>change_type\<close> is only logged.
  \<^verbatim>\<open>
  if not self.notifier.enabled:
      return
  if entry.rank <= self.config.watch.top_threshold:
      threshold = "top"; template = self.config.discord.top_template ...
  elif entry.rank <= self.config.watch.warn_threshold:
      threshold = "warn"; template = self.config.discord.warn_template ...
  else:
      threshold = "update"; template = self.config.discord.update_template ...
  if not template:
      return
  key = f"{entry.label}|{entry.target}|{entry.date}|{entry.shift}|{threshold}"
  if not self.state.should_alert(key, self.config.watch.cooldown_minutes):
      return
  context = {...}
  message = self.notifier.format_message(template, **context)
  self.notifier.send(message)
  self.state.record_alert(key)
  save_state(self.config.watch.state_file, self.state)
  \<close>
\<close>

definition threshold_template :: "AppConfig \<Rightarrow> DiscordConfig \<Rightarrow> Entry \<Rightarrow> string \<times> string" where
  "threshold_template cfg d entry =
     (if Entry.rank entry \<le> top_threshold (watch cfg) then (''top'', top_template d)
      else if Entry.rank entry \<le> warn_threshold (watch cfg) then (''warn'', warn_template d)
      else (''update'', update_template d))"

definition maybe_notify :: "env \<Rightarrow> AppConfig \<Rightarrow> Entry \<Rightarrow> string \<Rightarrow> world \<Rightarrow> outcome" where
  "maybe_notify ev cfg entry change_type w =
     (case discord cfg of
        None \<Rightarrow> Done w
      | Some d \<Rightarrow>
          (let (threshold, template) = threshold_template cfg d entry
           in if template = [] then Done w
              else
                (let key = alert_key entry threshold
                 in case should_alert (state w) key (cooldown_minutes (watch cfg)) (utcnow ev) of
                      Inl e \<Rightarrow> Raised e w
                    | Inr False \<Rightarrow> Done w
                    | Inr True \<Rightarrow>
                        (case format_message ev d template (context_of entry) of
                           Inl e \<Rightarrow> Raised e w
                         | Inr message \<Rightarrow>
                             (case send ev d message w of
                                Raised e w' \<Rightarrow> Raised e w'
                              | Done w' \<Rightarrow>
                                  (let st = record_alert (state w') key (utcnow ev)
                                   in Done (w'\<lparr>state := st, disk := save_state st\<rparr>)))))))"

section \<open>Detecting changes\<close>

text \<open>
  \<^verbatim>\<open>Watcher._handle_entries\<close>, second loop, over \<^verbatim>\<open>best.items()\<close>:
  \<^verbatim>\<open>
  previous_state = self.state.best_previous(label, target)
  self.state.record_entry(entry)
  if not previous_state:
      self._maybe_notify(entry, "new")
      continue
  if entry.rank < previous_state.rank or entry.page < previous_state.page
        or entry.shift != previous_state.shift or entry.date != previous_state.date:
      self._maybe_notify(entry, "update")
  else:
      LOGGER.debug("No change for %s/%s", label, target)
  \<close>
  The three branches are named as the specification names them.
\<close>

datatype classification = New | Changed | Unchanged

definition classify :: "EntryState option \<Rightarrow> Entry \<Rightarrow> classification" where
  "classify previous_state entry =
     (case previous_state of
        None \<Rightarrow> New
      | Some p \<Rightarrow>
          if Entry.rank entry < EntryState.rank p \<or> Entry.page entry < EntryState.page p \<or>
             Entry.shift entry \<noteq> EntryState.shift p \<or> Entry.date entry \<noteq> EntryState.date p
          then Changed else Unchanged)"

definition handle_one :: "env \<Rightarrow> AppConfig \<Rightarrow> (string \<times> string) \<times> Entry \<Rightarrow> world \<Rightarrow> outcome" where
  "handle_one ev cfg item w =
     (case item of
        ((lbl, tgt), entry) \<Rightarrow>
          (let previous_state = best_previous (state w) lbl tgt;
               w1 = w\<lparr>state := record_entry (state w) entry (utcnow ev)\<rparr>
           in case classify previous_state entry of
                New \<Rightarrow> maybe_notify ev cfg entry ''new'' w1
              | Changed \<Rightarrow> maybe_notify ev cfg entry ''update'' w1
              | Unchanged \<Rightarrow> Done w1))"

fun handle_best :: "env \<Rightarrow> AppConfig \<Rightarrow> best_dict \<Rightarrow> world \<Rightarrow> outcome" where
  "handle_best ev cfg [] w = Done w"
| "handle_best ev cfg (item # items) w =
     (case handle_one ev cfg item w of
        Raised e w' \<Rightarrow> Raised e w'
      | Done w' \<Rightarrow> handle_best ev cfg items w')"

definition handle_entries :: "env \<Rightarrow> AppConfig \<Rightarrow> Entry list \<Rightarrow> world \<Rightarrow> outcome" where
  "handle_entries ev cfg new_entries w = handle_best ev cfg (select_best new_entries) w"


section \<open>One pass\<close>

text \<open>
  \<^verbatim>\<open>parser.py\<close>, \<^verbatim>\<open>extract_lines\<close>: a PDF whose text cannot be extracted gives no
  lines; the lines of an HTML page are stripped and the empty ones dropped; any
  other content is decoded and split.
\<close>

definition extract_lines :: "env \<Rightarrow> string \<Rightarrow> string \<Rightarrow> string list" where
  "extract_lines ev result_content ctype =
     (if ctype = ''application/pdf''
      then (case pdf_lines ev result_content of Inl e \<Rightarrow> [] | Inr ls \<Rightarrow> ls)
      else if ctype = ''text/html'' \<or> ctype = ''application/xhtml+xml''
      then filter (\<lambda>l. l \<noteq> []) (map strip (html_lines ev result_content))
      else decoded_lines ev result_content)"

text \<open>\<^verbatim>\<open>url = f"{base_url.rstrip('/')}/{page}"\<close>\<close>

definition page_url :: "string \<Rightarrow> int \<Rightarrow> string" where
  "page_url base_url pg =
     rev (dropWhile (\<lambda>c. c = CHR ''/'') (rev base_url)) @ ''/'' @ str_int pg"

text \<open>
  The local variables of \<^verbatim>\<open>Watcher._run_once\<close>, and the URLs requested from the
  session so far.
\<close>

record pass_vars =
  new_entries :: "Entry list"
  seen_pages :: "string \<rightharpoonup> string list"
  total_pages :: int
  fetch_log :: "string list"

definition page_entries :: "env \<Rightarrow> AppConfig \<Rightarrow> string \<Rightarrow> int \<Rightarrow> FetchResult \<Rightarrow> Entry list" where
  "page_entries ev cfg lbl pg result =
     parse_entries (extract_lines ev (content result) (content_type result)) lbl pg
       (target_ids (watch cfg))"

text \<open>
  The loop over the pages of one list:
  \<^verbatim>\<open>
  page = 0
  while page < self.config.watch.page_limit:
      url = f"{base_url.rstrip('/')}/{page}"
      result = self.session.fetch(url)
      previous_contents = seen_pages[label]
      content_hash = hashlib.sha256(result.content).hexdigest()
      if previous_contents and content_hash in previous_contents:
          break
      previous_contents.append(content_hash)
      lines = extract_lines(result.content, result.content_type)
      entries = parse_entries(lines, label=label, page=page, targets=...)
      new_entries.extend(entries)
      page += 1
      total_pages += 1
  \<close>
  \<^verbatim>\<open>seen_pages\<close> is a \<^verbatim>\<open>defaultdict(list)\<close> whose keys are the labels: reading a
  label that is not there stores an empty list under it.
\<close>

function fetch_pages :: "env \<Rightarrow> AppConfig \<Rightarrow> string \<Rightarrow> string \<Rightarrow> int \<Rightarrow> pass_vars \<Rightarrow> error + pass_vars" where
  "fetch_pages ev cfg base_url lbl pg v =
     (if pg < page_limit (watch cfg) then
        (case fetch ev (page_url base_url pg) of
           Inl e \<Rightarrow> Inl e
         | Inr result \<Rightarrow>
             (let previous_contents = (case seen_pages v lbl of None \<Rightarrow> [] | Some hs \<Rightarrow> hs);
                  content_hash = sha256 ev (content result);
                  v1 = v\<lparr>fetch_log := fetch_log v @ [page_url base_url pg],
                         seen_pages := (seen_pages v)(lbl \<mapsto> previous_contents)\<rparr>
              in if previous_contents \<noteq> [] \<and> content_hash \<in> set previous_contents then Inr v1
                 else fetch_pages ev cfg base_url lbl (pg + 1)
                        (v1\<lparr>seen_pages := (seen_pages v)(lbl \<mapsto> previous_contents @ [content_hash]),
                            new_entries := new_entries v @ page_entries ev cfg lbl pg result,
                            total_pages := total_pages v + 1\<rparr>)))
      else Inr v)"
  by pat_completeness auto
termination
  by (relation "measure (\<lambda>(ev, cfg, base_url, lbl, pg, v). nat (page_limit (watch cfg) - pg))") auto

text \<open>
  The equation of the loop is used one step at a time, not as a rewrite rule.
\<close>

declare fetch_pages.simps [simp del]

text \<open>The loop over \<^verbatim>\<open>self.config.watch.paired_labels\<close>.\<close>

fun fetch_lists :: "env \<Rightarrow> AppConfig \<Rightarrow> (string \<times> string) list \<Rightarrow> pass_vars \<Rightarrow> error + pass_vars" where
  "fetch_lists ev cfg [] v = Inr v"
| "fetch_lists ev cfg ((base_url, lbl) # rest) v =
     (case fetch_pages ev cfg base_url lbl 0 v of
        Inl e \<Rightarrow> Inl e
      | Inr v' \<Rightarrow> fetch_lists ev cfg rest v')"

definition initial_vars :: pass_vars where
  "initial_vars = \<lparr>new_entries = [], seen_pages = Map.empty, total_pages = 0, fetch_log = []\<rparr>"

text \<open>
  \<^verbatim>\<open>Watcher._run_once\<close>: fetch every list, handle the entries, save the state.
  An exception leaves the method before the statements that follow.
\<close>

definition run_once :: "env \<Rightarrow> AppConfig \<Rightarrow> world \<Rightarrow> outcome" where
  "run_once ev cfg w =
     (case fetch_lists ev cfg (paired_labels (watch cfg)) initial_vars of
        Inl e \<Rightarrow> Raised e w
      | Inr v \<Rightarrow>
          (case handle_entries ev cfg (new_entries v) w of
             Raised e w' \<Rightarrow> Raised e w'
           | Done w' \<Rightarrow> Done (w'\<lparr>disk := save_state (state w')\<rparr>)))"

section \<open>The run loop\<close>






text \<open>
  \<^verbatim>\<open>Watcher.__init__\<close> loads the state from the state file; nothing has been sent yet.
\<close>

definition init_world :: "state_file \<Rightarrow> int \<Rightarrow> error + world" where
  "init_world file now =
     (case load_state file now of
        Inl e \<Rightarrow> Inl e
      | Inr st \<Rightarrow> Inr \<lparr>state = st, disk = file, outbox = []\<rparr>)"



text \<open>
  What a stored entry says about the position of a target: all its fields but the
  time at which it was written.
\<close>

definition position :: "EntryState \<Rightarrow> int \<times> int \<times> string option \<times> string option \<times> string" where
  "position p =
     (EntryState.rank p, EntryState.page p, EntryState.shift p, EntryState.date p, EntryState.raw p)"

text \<open>
  A matcher consumes texts with a property when every way it has to match, from any
  position, moves over such a text.
\<close>

definition consumes :: "matcher \<Rightarrow> (string \<Rightarrow> bool) \<Rightarrow> bool" where
  "consumes m P = (\<forall>p q. q \<in> set (m p) \<longrightarrow> (\<exists>w. snd p = w @ snd q \<and> P w))"

section \<open>Sample data\<close>

text \<open>
  Two lines of the same page that name the same target with the same rank and
  different shifts, as \<^const>\<open>parse_entries\<close> returns them.
\<close>

definition morning :: Entry where
  "morning = \<lparr>label = ''L'', page = 0, rank = 5, target = ''A1234'',
               shift = Some ''08:00-16:00'', date = None, raw = ''A1234 5 08:00-16:00''\<rparr>"

definition evening :: Entry where
  "evening = \<lparr>label = ''L'', page = 0, rank = 5, target = ''A1234'',
               shift = Some ''16:00-00:00'', date = None, raw = ''A1234 5 16:00-00:00''\<rparr>"

text \<open>
  A configuration with one list, one target and the default thresholds, and an
  environment built from a clock reading, a server and the status with which the
  webhook answers. The digest of a content is the content itself.
\<close>

definition sample_watch :: WatchConfig where
  "sample_watch =
     \<lparr>list_urls = [''https://intranet/liste/''], list_labels = [''L''], target_ids = [''a1234''],
      page_limit = 20, sleep_seconds = 300, cooldown_minutes = 30,
      top_threshold = 6, warn_threshold = 10\<rparr>"

definition sample_discord :: DiscordConfig where
  "sample_discord =
     \<lparr>webhook_url = ''https://discord/webhook'', ping = '' @here '',
      top_template = ''{ping} top {label} #{rank}'',
      warn_template = ''{ping} warn {label} #{rank}'',
      update_template = ''{ping} update {label} #{rank}''\<rparr>"

definition sample_config :: AppConfig where
  "sample_config =
     \<lparr>login_primary = None, login_secondary = None, discord = Some sample_discord,
      watch = sample_watch\<rparr>"

definition sample_env :: "int \<Rightarrow> (string \<Rightarrow> error + FetchResult) \<Rightarrow> int \<Rightarrow> env" where
  "sample_env now server status =
     \<lparr>utcnow = now, submit_login = (\<lambda>c. None), fetch = server, sha256 = (\<lambda>c. c),
      pdf_lines = (\<lambda>c. Inl ExtractError), html_lines = (\<lambda>c. [c]), decoded_lines = (\<lambda>c. [c]),
      post = (\<lambda>u m. Inr status), str_format = (\<lambda>t ctx. Inr t)\<rparr>"

definition no_server :: "string \<Rightarrow> error + FetchResult" where
  "no_server u = Inl FetchError"

text \<open>
  A target last seen at rank 5 and now found at rank 9 on the same page, without
  shift or date.
\<close>

definition rank5 :: EntryState where
  "rank5 = \<lparr>EntryState.rank = 5, EntryState.page = 0, EntryState.shift = None, EntryState.date = None,
            EntryState.raw = ''A1234 5'', updated_at = Iso 0\<rparr>"

definition rank9 :: Entry where
  "rank9 = \<lparr>label = ''L'', page = 0, rank = 9, target = ''A1234'', shift = None, date = None,
            raw = ''A1234 9''\<rparr>"

definition world5 :: world where
  "world5 = \<lparr>state = \<lparr>entries = [''L'' \<mapsto> [''A1234'' \<mapsto> rank5]], alerts = Map.empty\<rparr>,
             disk = No_file, outbox = []\<rparr>"


text \<open>
  A server whose page 1 differs from all its other pages, which are alike, and a
  watcher that starts without a state file.
\<close>

definition page_a :: FetchResult where
  "page_a = \<lparr>status_code = 200, content = ''A1234 9'', content_type = ''text/plain''\<rparr>"

definition page_b :: FetchResult where
  "page_b = \<lparr>status_code = 200, content = ''B5678 2'', content_type = ''text/plain''\<rparr>"

definition sample_server :: "string \<Rightarrow> error + FetchResult" where
  "sample_server u = (if u = ''https://intranet/liste/1'' then Inr page_b else Inr page_a)"


definition sample_vars :: pass_vars where
  "sample_vars =
     \<lparr>new_entries = [rank9], seen_pages = [''L'' \<mapsto> [''A1234 9'', ''B5678 2'']], total_pages = 2,
      fetch_log = [''https://intranet/liste/0'', ''https://intranet/liste/1'',
                   ''https://intranet/liste/2'']\<rparr>"

definition world0 :: world where
  "world0 = \<lparr>state = empty_State, disk = No_file, outbox = []\<rparr>"

text \<open>
  The watcher after a first pass over the sample server at time 7, in which the
  target is new and the alert is sent; the watcher restarted from the state file
  of that pass; and the restarted watcher after a second pass at time 100.
\<close>

definition first_state :: State where
  "first_state = record_alert (record_entry empty_State rank9 7) ''L|A1234|None|None|warn'' 7"

definition first_world :: world where
  "first_world =
     \<lparr>state = first_state, disk = save_state first_state,
      outbox = [''{ping} warn {label} #{rank}'']\<rparr>"

definition restarted :: world where
  "restarted = \<lparr>state = first_state, disk = save_state first_state, outbox = []\<rparr>"

definition second_world :: world where
  "second_world =
     \<lparr>state = record_entry first_state rank9 100,
      disk = save_state (record_entry first_state rank9 100), outbox = []\<rparr>"

section \<open>Properties of the selection\<close>

lemma map_of_best_step:
  "map_of (best_step best e) k =
     (if k = entry_key e \<and> replaces e (map_of best k) then Some e else map_of best k)"
  by (auto simp: best_step_def Let_def AList.update_conv')

lemma select_best_snoc: "select_best (es @ [e]) = best_step (select_best es) e"
  by (simp add: select_best_def)

lemma not_replaces_trans:
  "\<not> replaces a (Some b) \<Longrightarrow> replaces c (Some b) \<Longrightarrow> \<not> replaces a (Some c)"
  by (auto simp: replaces_def)

lemma replaces_irrefl: "\<not> replaces a (Some a)"
  by (simp add: replaces_def)

lemma select_best_None:
  "map_of (select_best es) k = None \<longleftrightarrow> (\<forall>e\<in>set es. entry_key e \<noteq> k)"
proof (induction es rule: rev_induct)
  case Nil
  show ?case by (simp add: select_best_def)
next
  case (snoc e es)
  then show ?case
    by (auto simp: select_best_snoc map_of_best_step replaces_def)
qed

text \<open>
  The entry selected for a key is one of the entries with that key, and none of
  them would replace it.
\<close>

lemma select_best_Some:
  "map_of (select_best es) k = Some s \<Longrightarrow>
     s \<in> set es \<and> entry_key s = k \<and> (\<forall>e\<in>set es. entry_key e = k \<longrightarrow> \<not> replaces e (Some s))"
proof (induction es arbitrary: s rule: rev_induct)
  case Nil
  then show ?case by (simp add: select_best_def)
next
  case (snoc e es)
  show ?case
  proof (cases "k = entry_key e \<and> replaces e (map_of (select_best es) k)")
    case True
    with snoc.prems have s: "s = e"
      by (auto simp: select_best_snoc map_of_best_step)
    show ?thesis
    proof (cases "map_of (select_best es) k")
      case None
      then have "\<forall>x\<in>set es. entry_key x \<noteq> k" by (simp add: select_best_None)
      with s True show ?thesis by (auto simp: replaces_irrefl)
    next
      case (Some p)
      from snoc.IH[OF Some] have p: "\<forall>x\<in>set es. entry_key x = k \<longrightarrow> \<not> replaces x (Some p)"
        by simp
      from True Some have "replaces e (Some p)" by simp
      with p have "\<forall>x\<in>set es. entry_key x = k \<longrightarrow> \<not> replaces x (Some e)"
        using not_replaces_trans by blast
      with s True show ?thesis by (auto simp: replaces_irrefl)
    qed
  next
    case False
    with snoc.prems have old: "map_of (select_best es) k = Some s"
      by (simp add: select_best_snoc map_of_best_step split: if_splits)
    from snoc.IH[OF old] False old show ?thesis by auto
  qed
qed

text \<open>
  Claim C3. Folding one more record into the selection replaces the current best
  of the record's (list, target) pair exactly when the record's rank is strictly
  lower, or its rank is equal and its page index strictly lower; a pair without a
  current best takes the record, and the other pairs keep theirs. For two records
  of one pair with rank 5, one on page 1 and one on page 0, the record of page 0
  is selected, in whichever order the two are met.
\<close>

theorem select_best_fold_step:
  "map_of (select_best (es @ [e])) k =
     (if k = entry_key e
      then (case map_of (select_best es) k of
              None \<Rightarrow> Some e
            | Some p \<Rightarrow>
                if Entry.rank e < Entry.rank p \<or>
                   (Entry.rank e = Entry.rank p \<and> Entry.page e < Entry.page p)
                then Some e else Some p)
      else map_of (select_best es) k)
   \<and> select_best
       [a\<lparr>Entry.rank := 5, Entry.page := 1\<rparr>,
        b\<lparr>label := Entry.label a, target := Entry.target a, Entry.rank := 5, Entry.page := 0\<rparr>] =
     [(entry_key a,
       b\<lparr>label := Entry.label a, target := Entry.target a, Entry.rank := 5, Entry.page := 0\<rparr>)]
   \<and> select_best
       [b\<lparr>label := Entry.label a, target := Entry.target a, Entry.rank := 5, Entry.page := 0\<rparr>,
        a\<lparr>Entry.rank := 5, Entry.page := 1\<rparr>] =
     [(entry_key a,
       b\<lparr>label := Entry.label a, target := Entry.target a, Entry.rank := 5, Entry.page := 0\<rparr>)]"
proof (intro conjI)
  show "map_of (select_best (es @ [e])) k =
     (if k = entry_key e
      then (case map_of (select_best es) k of
              None \<Rightarrow> Some e
            | Some p \<Rightarrow>
                if Entry.rank e < Entry.rank p \<or>
                   (Entry.rank e = Entry.rank p \<and> Entry.page e < Entry.page p)
                then Some e else Some p)
      else map_of (select_best es) k)"
    by (simp add: select_best_snoc map_of_best_step replaces_def split: option.splits)
qed (simp_all add: select_best_def best_step_def replaces_def entry_key_def)

text \<open>
  Claim C8, as stated: the selected record does not depend on the order of the
  records within a page. It fails for two records of one page that tie in rank:
  the one met first is kept.
\<close>

theorem select_best_order_counterexample:
  "Entry.page morning = Entry.page evening \<and>
   map_of (select_best [morning, evening]) (''L'', ''A1234'') \<noteq>
   map_of (select_best [evening, morning]) (''L'', ''A1234'')"
  by (simp add: select_best_def best_step_def replaces_def entry_key_def morning_def evening_def)

text \<open>
  Claim C8, amended. However the records of a pass are permuted, the record
  selected for a (list, target) pair has the same rank and the same page index, and
  a pair has a selected record in one order exactly when it has one in the other.
\<close>

theorem select_best_perm_rank_page:
  assumes "mset es = mset es'"
  shows "map_option (\<lambda>e. (Entry.rank e, Entry.page e)) (map_of (select_best es) k) =
         map_option (\<lambda>e. (Entry.rank e, Entry.page e)) (map_of (select_best es') k)"
proof -
  from assms have sets: "set es = set es'" by (rule mset_eq_setD)
  show ?thesis
  proof (cases "map_of (select_best es) k")
    case None
    then have "map_of (select_best es') k = None"
      using sets by (simp add: select_best_None)
    with None show ?thesis by simp
  next
    case (Some s)
    from select_best_Some[OF Some] have s: "s \<in> set es" "entry_key s = k"
      "\<forall>e\<in>set es. entry_key e = k \<longrightarrow> \<not> replaces e (Some s)" by auto
    from s sets have "map_of (select_best es') k \<noteq> None"
      by (auto simp: select_best_None)
    then obtain s' where Some': "map_of (select_best es') k = Some s'" by auto
    from select_best_Some[OF Some'] have s': "s' \<in> set es'" "entry_key s' = k"
      "\<forall>e\<in>set es'. entry_key e = k \<longrightarrow> \<not> replaces e (Some s')" by auto
    from s s' sets have "\<not> replaces s' (Some s)" "\<not> replaces s (Some s')" by auto
    then have "Entry.rank s = Entry.rank s' \<and> Entry.page s = Entry.page s'"
      by (auto simp: replaces_def)
    with Some Some' show ?thesis by simp
  qed
qed

theorem select_best_perm_rank_page_witness:
  "mset [morning, evening] = mset [evening, morning] \<and>
   map_option (\<lambda>e. (Entry.rank e, Entry.page e))
     (map_of (select_best [morning, evening]) (''L'', ''A1234'')) =
   map_option (\<lambda>e. (Entry.rank e, Entry.page e))
     (map_of (select_best [evening, morning]) (''L'', ''A1234''))"
  using select_best_perm_rank_page [of "[morning, evening]" "[evening, morning]" "(''L'', ''A1234'')"]
  by simp

section \<open>Properties of the change detection\<close>



section \<open>Properties of the cooldown\<close>



text \<open>
  Claim C10. Whenever \<^const>\<open>maybe_notify\<close> raises, it leaves the watcher as it found
  it. In particular, when the dispatcher gets as far as the send and the send
  raises, the same exception leaves \<^const>\<open>maybe_notify\<close>, no alert is recorded for
  the key, nothing is written to the state file, and \<^const>\<open>should_alert\<close> still
  accepts the key. When the send returns, the alert is recorded with the current
  time and the state file is written.
\<close>

theorem failed_send_records_nothing:
  "(maybe_notify ev cfg e ct w = Raised err w' \<longrightarrow> w' = w)
   \<and> (discord cfg = Some d \<and> threshold_template cfg d e = (th, tpl) \<and> tpl \<noteq> [] \<and>
        should_alert (state w) (alert_key e th) (cooldown_minutes (watch cfg)) (utcnow ev) = Inr True \<and>
        format_message ev d tpl (context_of e) = Inr msg \<and>
        send ev d msg w = Raised err w1 \<longrightarrow>
        maybe_notify ev cfg e ct w = Raised err w \<and>
        alerts (state w) (alert_key e th) = alerts (state w1) (alert_key e th) \<and> w1 = w \<and>
        should_alert (state w1) (alert_key e th) (cooldown_minutes (watch cfg)) (utcnow ev) = Inr True)
   \<and> (discord cfg = Some d \<and> threshold_template cfg d e = (th, tpl) \<and> tpl \<noteq> [] \<and>
        should_alert (state w) (alert_key e th) (cooldown_minutes (watch cfg)) (utcnow ev) = Inr True \<and>
        format_message ev d tpl (context_of e) = Inr msg \<and>
        send ev d msg w = Done w1 \<longrightarrow>
        (\<exists>w2. maybe_notify ev cfg e ct w = Done w2 \<and>
          alerts (state w2) (alert_key e th) = Some \<lparr>sent_at = isoformat (utcnow ev)\<rparr> \<and>
          disk w2 = save_state (state w2) \<and> outbox w2 = outbox w @ [msg]))"
proof (intro conjI impI)
  assume "maybe_notify ev cfg e ct w = Raised err w'"
  then show "w' = w"
    by (auto simp: maybe_notify_def Let_def send_def split: option.splits prod.splits if_splits sum.splits bool.splits outcome.splits)
next
  assume a: "discord cfg = Some d \<and> threshold_template cfg d e = (th, tpl) \<and> tpl \<noteq> [] \<and>
        should_alert (state w) (alert_key e th) (cooldown_minutes (watch cfg)) (utcnow ev) = Inr True \<and>
        format_message ev d tpl (context_of e) = Inr msg \<and>
        send ev d msg w = Raised err w1"
  then have w1: "w1 = w" by (auto simp: send_def split: sum.splits if_splits)
  from a show "maybe_notify ev cfg e ct w = Raised err w" using w1
    by (simp add: maybe_notify_def Let_def)
  from w1 show "alerts (state w) (alert_key e th) = alerts (state w1) (alert_key e th)" by simp
  from w1 show "w1 = w" .
  from a w1 show "should_alert (state w1) (alert_key e th) (cooldown_minutes (watch cfg)) (utcnow ev) = Inr True"
    by simp
next
  assume a: "discord cfg = Some d \<and> threshold_template cfg d e = (th, tpl) \<and> tpl \<noteq> [] \<and>
        should_alert (state w) (alert_key e th) (cooldown_minutes (watch cfg)) (utcnow ev) = Inr True \<and>
        format_message ev d tpl (context_of e) = Inr msg \<and>
        send ev d msg w = Done w1"
  then have w1: "w1 = w\<lparr>outbox := outbox w @ [msg]\<rparr>" by (auto simp: send_def split: sum.splits if_splits)
  from a w1 show "\<exists>w2. maybe_notify ev cfg e ct w = Done w2 \<and>
          alerts (state w2) (alert_key e th) = Some \<lparr>sent_at = isoformat (utcnow ev)\<rparr> \<and>
          disk w2 = save_state (state w2) \<and> outbox w2 = outbox w @ [msg]"
    by (simp add: maybe_notify_def Let_def record_alert_def)
qed

section \<open>Properties of loading the state\<close>


text \<open>A witness of C10: the webhook answers 500, and then 204.\<close>

theorem failed_send_records_nothing_witness:
  "discord sample_config = Some sample_discord \<and>
   threshold_template sample_config sample_discord rank9 = (''warn'', ''{ping} warn {label} #{rank}'') \<and>
   should_alert (state world5) (alert_key rank9 ''warn'') (cooldown_minutes (watch sample_config)) 7 = Inr True \<and>
   format_message (sample_env 7 no_server 500) sample_discord ''{ping} warn {label} #{rank}''
     (context_of rank9) = Inr ''{ping} warn {label} #{rank}'' \<and>
   send (sample_env 7 no_server 500) sample_discord ''{ping} warn {label} #{rank}'' world5 =
     Raised (HTTPError 500) world5 \<and>
   maybe_notify (sample_env 7 no_server 500) sample_config rank9 ''update'' world5 =
     Raised (HTTPError 500) world5 \<and>
   alerts (state world5) (alert_key rank9 ''warn'') = None \<and>
   send (sample_env 7 no_server 204) sample_discord ''{ping} warn {label} #{rank}'' world5 =
     Done (world5\<lparr>outbox := [''{ping} warn {label} #{rank}'']\<rparr>) \<and>
   (\<exists>w2. maybe_notify (sample_env 7 no_server 204) sample_config rank9 ''update'' world5 = Done w2 \<and>
      alerts (state w2) (alert_key rank9 ''warn'') = Some \<lparr>sent_at = Iso 7\<rparr> \<and>
      disk w2 = save_state (state w2) \<and> outbox w2 = [''{ping} warn {label} #{rank}''])"
proof -
  have d: "discord sample_config = Some sample_discord" by (simp add: sample_config_def)
  have t: "threshold_template sample_config sample_discord rank9 = (''warn'', ''{ping} warn {label} #{rank}'')"
    by (simp add: threshold_template_def sample_config_def sample_watch_def sample_discord_def rank9_def)
  have a: "alerts (state world5) (alert_key rank9 ''warn'') = None" by (simp add: world5_def)
  have s: "should_alert (state world5) (alert_key rank9 ''warn'') (cooldown_minutes (watch sample_config)) 7 = Inr True"
    by (simp add: should_alert_def a)
  have f: "format_message (sample_env 7 no_server st) sample_discord ''{ping} warn {label} #{rank}''
     (context_of rank9) = Inr ''{ping} warn {label} #{rank}''" for st
    by (simp add: format_message_def sample_env_def)
  have s5: "send (sample_env 7 no_server 500) sample_discord ''{ping} warn {label} #{rank}'' world5 =
     Raised (HTTPError 500) world5"
    by (simp add: send_def sample_env_def)
  have s2: "send (sample_env 7 no_server 204) sample_discord ''{ping} warn {label} #{rank}'' world5 =
     Done (world5\<lparr>outbox := [''{ping} warn {label} #{rank}'']\<rparr>)"
    by (simp add: send_def sample_env_def world5_def)
  have n: "utcnow (sample_env 7 no_server st) = 7" for st by (simp add: sample_env_def)
  have o: "outbox world5 = []" by (simp add: world5_def)
  note th5 = failed_send_records_nothing [of "sample_env 7 no_server 500" sample_config rank9 "''update''" world5
      "HTTPError 500" world5 sample_discord "''warn''" "''{ping} warn {label} #{rank}''"
      "''{ping} warn {label} #{rank}''" world5]
  note th2 = failed_send_records_nothing [of "sample_env 7 no_server 204" sample_config rank9 "''update''" world5
      "HTTPError 500" world5 sample_discord "''warn''" "''{ping} warn {label} #{rank}''"
      "''{ping} warn {label} #{rank}''" "world5\<lparr>outbox := [''{ping} warn {label} #{rank}'']\<rparr>"]
  from th5 d t s f s5 n have r5: "maybe_notify (sample_env 7 no_server 500) sample_config rank9 ''update'' world5 =
     Raised (HTTPError 500) world5" by simp
  from th2 d t s f s2 n o have r2: "\<exists>w2. maybe_notify (sample_env 7 no_server 204) sample_config rank9 ''update'' world5 = Done w2 \<and>
      alerts (state w2) (alert_key rank9 ''warn'') = Some \<lparr>sent_at = Iso 7\<rparr> \<and>
      disk w2 = save_state (state w2) \<and> outbox w2 = [''{ping} warn {label} #{rank}'']"
    by (simp add: isoformat_def)
  show ?thesis using d t s f s5 r5 a s2 r2 by simp
qed

section \<open>Properties of the run loop\<close>







text \<open>The sample run: nothing is known yet, the target is found, the webhook answers 500.\<close>

lemma sample_parse_page0: "parse_entries [''A1234 9''] ''L'' 0 [''a1234''] = [rank9]"
  by code_simp

lemma sample_parse_page1: "parse_entries [''B5678 2''] ''L'' 1 [''a1234''] = []"
  by code_simp

lemma sample_urls:
  "map (page_url ''https://intranet/liste/'') [0, 1, 2] =
     [''https://intranet/liste/0'', ''https://intranet/liste/1'', ''https://intranet/liste/2'']"
  by code_simp

lemma sample_fetch_lists:
  "fetch_lists (sample_env now sample_server status) sample_config
     (paired_labels (watch sample_config)) initial_vars = Inr sample_vars"
  using sample_urls
  by (simp add: fetch_pages.simps paired_labels_def sample_config_def sample_watch_def enumerate_eq_zip
      sample_env_def initial_vars_def sample_server_def page_a_def page_b_def
      page_entries_def extract_lines_def
      sample_parse_page0 sample_parse_page1 sample_vars_def)


section \<open>Properties of the pagination\<close>




lemma fetch_pages_beyond_ceiling:
  "page_limit (watch cfg) \<le> pg \<Longrightarrow> fetch_pages ev cfg base lbl pg v = Inr v"
  by (subst fetch_pages.simps) simp








section \<open>Properties of a restart\<close>

text \<open>
  Saving a state and loading it again gives the state back: every field is written
  and none takes its default.
\<close>

lemma load_dump_entry: "load_entry now (dump_entry p) = p"
  by (simp add: load_entry_def dump_entry_def get_default_def)

lemma load_dump_alert: "load_alert now (dump_alert a) = a"
  by (simp add: load_alert_def dump_alert_def get_default_def)

lemma load_state_save_state: "load_state (save_state st) now = Inr st"
proof -
  have e: "(\<lambda>lbl. map_option (\<lambda>targets tgt. map_option (load_entry now) (targets tgt))
            (map_option (\<lambda>targets tgt. map_option dump_entry (targets tgt)) (entries st lbl))) = entries st"
  proof
    fix lbl
    show "map_option (\<lambda>targets tgt. map_option (load_entry now) (targets tgt))
            (map_option (\<lambda>targets tgt. map_option dump_entry (targets tgt)) (entries st lbl)) = entries st lbl"
      by (cases "entries st lbl") (simp_all add: option.map_comp comp_def load_dump_entry option.map_ident)
  qed
  have a: "(\<lambda>key. map_option (load_alert now) (map_option dump_alert (alerts st key))) = alerts st"
    by (rule ext) (simp add: option.map_comp comp_def load_dump_alert option.map_ident)
  show ?thesis
    by (simp add: load_state_def save_state_def get_default_def Let_def e a)
qed

lemma best_previous_record_entry:
  "best_previous (record_entry st e now) l t =
     (if l = Entry.label e \<and> t = Entry.target e then Some (EntryState_of e now)
      else best_previous st l t)"
  by (auto simp: best_previous_def record_entry_def Let_def split: option.splits)

lemma alerts_record_entry: "alerts (record_entry st e now) = alerts st"
  by (simp add: record_entry_def Let_def)

lemma maybe_notify_entries:
  "maybe_notify ev cfg e ct w = Done w' \<Longrightarrow> entries (state w') = entries (state w)"
  by (auto simp: maybe_notify_def Let_def send_def record_alert_def
      split: option.splits prod.splits if_splits sum.splits bool.splits outcome.splits)

lemma best_previous_cong: "entries st' = entries st \<Longrightarrow> best_previous st' l t = best_previous st l t"
  by (simp add: best_previous_def)

lemma handle_one_best_previous:
  assumes "handle_one ev cfg ((l, t), e) w = Done w'" and "entry_key e = (l, t)"
  shows "best_previous (state w') l' t' =
     (if l' = l \<and> t' = t then Some (EntryState_of e (utcnow ev)) else best_previous (state w) l' t')"
proof -
  let ?w1 = "w\<lparr>state := record_entry (state w) e (utcnow ev)\<rparr>"
  have "entries (state w') = entries (state ?w1)"
    using assms(1)
    by (cases "classify (best_previous (state w) l t) e")
       (auto simp: handle_one_def Let_def dest: maybe_notify_entries)
  then have "best_previous (state w') l' t' = best_previous (state ?w1) l' t'"
    by (rule best_previous_cong)
  with assms(2) show ?thesis
    by (auto simp: best_previous_record_entry entry_key_def)
qed

lemma handle_best_keeps_others:
  "handle_best ev cfg b w = Done w' \<Longrightarrow> \<forall>((l', t'), e)\<in>set b. entry_key e = (l', t') \<Longrightarrow>
   (l, t) \<notin> fst ` set b \<Longrightarrow> best_previous (state w') l t = best_previous (state w) l t"
proof (induction b arbitrary: w)
  case Nil
  then show ?case by simp
next
  case (Cons item b)
  obtain l0 t0 e0 where item: "item = ((l0, t0), e0)" by (metis prod.exhaust)
  from Cons.prems(1) obtain w1 where one: "handle_one ev cfg item w = Done w1"
    and rest: "handle_best ev cfg b w1 = Done w'"
    by (auto split: outcome.splits)
  from Cons.prems(2) item have k0: "entry_key e0 = (l0, t0)" by simp
  from Cons.prems(3) item have ne: "\<not> (l = l0 \<and> t = t0)" by auto
  have "best_previous (state w') l t = best_previous (state w1) l t"
    using rest Cons.prems(2,3) by (intro Cons.IH) auto
  also have "\<dots> = best_previous (state w) l t"
    using handle_one_best_previous[OF one[unfolded item] k0, of l t] ne by simp
  finally show ?case .
qed

lemma handle_best_records:
  "handle_best ev cfg b w = Done w' \<Longrightarrow> distinct (map fst b) \<Longrightarrow>
   \<forall>((l', t'), e)\<in>set b. entry_key e = (l', t') \<Longrightarrow>
   ((l, t), e) \<in> set b \<Longrightarrow> best_previous (state w') l t = Some (EntryState_of e (utcnow ev))"
proof (induction b arbitrary: w)
  case Nil
  then show ?case by simp
next
  case (Cons item b)
  obtain l0 t0 e0 where item: "item = ((l0, t0), e0)" by (metis prod.exhaust)
  from Cons.prems(1) obtain w1 where one: "handle_one ev cfg item w = Done w1"
    and rest: "handle_best ev cfg b w1 = Done w'"
    by (auto split: outcome.splits)
  from Cons.prems(3) item have k0: "entry_key e0 = (l0, t0)" by simp
  show ?case
  proof (cases "((l, t), e) \<in> set b")
    case True
    with rest Cons.prems(2,3) show ?thesis by (intro Cons.IH) auto
  next
    case False
    with Cons.prems(4) item have eq: "l = l0" "t = t0" "e = e0" by auto
    from Cons.prems(2) item eq have notin: "(l, t) \<notin> fst ` set b" by auto
    have "best_previous (state w') l t = best_previous (state w1) l t"
      using rest Cons.prems(3) notin by (intro handle_best_keeps_others) auto
    also have "\<dots> = Some (EntryState_of e (utcnow ev))"
      using handle_one_best_previous[OF one[unfolded item] k0, of l t] eq by simp
    finally show ?thesis .
  qed
qed

lemma select_best_distinct: "distinct (map fst (select_best es))"
proof (induction es rule: rev_induct)
  case Nil
  show ?case by (simp add: select_best_def)
next
  case (snoc e es)
  then show ?case
    by (simp add: select_best_snoc best_step_def Let_def AList.distinct_update)
qed

lemma set_update_subset: "set (AList.update k v al) \<subseteq> insert (k, v) (set al)"
  by (induction al) auto

lemma select_best_keys: "(k, e) \<in> set (select_best es) \<Longrightarrow> entry_key e = k"
proof (induction es arbitrary: k e rule: rev_induct)
  case Nil
  then show ?case by (simp add: select_best_def)
next
  case (snoc x es)
  show ?case
  proof (cases "replaces x (map_of (select_best es) (entry_key x))")
    case True
    with snoc.prems have "(k, e) \<in> set (AList.update (entry_key x) x (select_best es))"
      by (simp add: select_best_snoc best_step_def Let_def)
    with set_update_subset[of "entry_key x" x "select_best es"]
    have "(k, e) = (entry_key x, x) \<or> (k, e) \<in> set (select_best es)" by blast
    with snoc.IH show ?thesis by blast
  next
    case False
    with snoc.prems have "(k, e) \<in> set (select_best es)"
      by (simp add: select_best_snoc best_step_def Let_def)
    with snoc.IH show ?thesis by blast
  qed
qed


lemma position_EntryState_of:
  "position (EntryState_of e now) =
     (Entry.rank e, Entry.page e, Entry.shift e, Entry.date e, Entry.raw e)"
  by (simp add: position_def EntryState_of_def)

lemma classify_same_position:
  "position p = position (EntryState_of e now) \<Longrightarrow> classify (Some p) e = Unchanged"
  by (simp add: classify_def position_def EntryState_of_def)

lemma handle_best_same_positions:
  assumes "distinct (map fst b)"
    and "\<forall>((l, t), e)\<in>set b. entry_key e = (l, t) \<and>
           map_option position (best_previous (state w) l t) = Some (position (EntryState_of e 0))"
  shows "\<exists>w'. handle_best ev cfg b w = Done w' \<and> outbox w' = outbox w \<and> disk w' = disk w \<and>
           alerts (state w') = alerts (state w) \<and>
           (\<forall>l t. map_option position (best_previous (state w') l t) =
                   map_option position (best_previous (state w) l t))"
  using assms
proof (induction b arbitrary: w)
  case Nil
  then show ?case by simp
next
  case (Cons item b)
  obtain l0 t0 e0 where item: "item = ((l0, t0), e0)" by (metis prod.exhaust)
  from Cons.prems(2) item have k0: "entry_key e0 = (l0, t0)"
    and p0: "map_option position (best_previous (state w) l0 t0) = Some (position (EntryState_of e0 0))"
    by auto
  from p0 obtain p where p: "best_previous (state w) l0 t0 = Some p"
    and pp: "position p = position (EntryState_of e0 0)" by auto
  let ?w1 = "w\<lparr>state := record_entry (state w) e0 (utcnow ev)\<rparr>"
  have one: "handle_one ev cfg item w = Done ?w1"
    using p classify_same_position[OF pp] by (simp add: item handle_one_def Let_def)
  have bp1: "best_previous (state ?w1) l t =
     (if l = l0 \<and> t = t0 then Some (EntryState_of e0 (utcnow ev)) else best_previous (state w) l t)" for l t
    using k0 by (auto simp: best_previous_record_entry entry_key_def)
  have pre: "\<forall>((l, t), e)\<in>set b. entry_key e = (l, t) \<and>
           map_option position (best_previous (state ?w1) l t) = Some (position (EntryState_of e 0))"
  proof (intro ballI, clarify)
    fix l t e assume m: "((l, t), e) \<in> set b"
    with Cons.prems(1) item have "(l, t) \<noteq> (l0, t0)" by force
    then have "best_previous (state ?w1) l t = best_previous (state w) l t"
      using bp1 by auto
    with Cons.prems(2) m show "entry_key e = (l, t) \<and>
           map_option position (best_previous (state ?w1) l t) = Some (position (EntryState_of e 0))"
      by auto
  qed
  from Cons.prems(1) have d: "distinct (map fst b)" by simp
  from Cons.IH[OF d pre] obtain w' where w': "handle_best ev cfg b ?w1 = Done w'"
    "outbox w' = outbox ?w1" "disk w' = disk ?w1" "alerts (state w') = alerts (state ?w1)"
    "\<forall>l t. map_option position (best_previous (state w') l t) =
                   map_option position (best_previous (state ?w1) l t)" by blast
  have same: "map_option position (best_previous (state ?w1) l t) =
              map_option position (best_previous (state w) l t)" for l t
    using bp1[of l t] p pp by (auto simp: position_EntryState_of)
  show ?case
    using one w' same by (simp add: alerts_record_entry)
qed

lemma fetch_pages_env:
  assumes "fetch ev2 = fetch ev1" and "sha256 ev2 = sha256 ev1" and "pdf_lines ev2 = pdf_lines ev1"
    and "html_lines ev2 = html_lines ev1" and "decoded_lines ev2 = decoded_lines ev1"
  shows "fetch_pages ev2 cfg base lbl pg v = fetch_pages ev1 cfg base lbl pg v"
proof (induction "nat (page_limit (watch cfg) - pg)" arbitrary: pg v)
  case 0
  then have "\<not> pg < page_limit (watch cfg)" by simp
  then show ?case by (simp add: fetch_pages.simps[of _ cfg base lbl pg v])
next
  case (Suc n)
  have pe: "page_entries ev2 cfg lbl pg r = page_entries ev1 cfg lbl pg r" for r
    using assms by (simp add: page_entries_def extract_lines_def)
  have IH: "fetch_pages ev2 cfg base lbl (pg + 1) v' = fetch_pages ev1 cfg base lbl (pg + 1) v'" for v'
    using Suc.hyps(2) by (intro Suc.hyps(1)) simp
  show ?case
    by (auto simp: fetch_pages.simps[of ev2 cfg base lbl pg v] fetch_pages.simps[of ev1 cfg base lbl pg v]
        assms pe IH Let_def split: sum.splits)
qed

lemma fetch_lists_env:
  assumes "fetch ev2 = fetch ev1" and "sha256 ev2 = sha256 ev1" and "pdf_lines ev2 = pdf_lines ev1"
    and "html_lines ev2 = html_lines ev1" and "decoded_lines ev2 = decoded_lines ev1"
  shows "fetch_lists ev2 cfg ls v = fetch_lists ev1 cfg ls v"
proof (induction ls arbitrary: v)
  case Nil
  show ?case by simp
next
  case (Cons a ls)
  obtain base lbl where a: "a = (base, lbl)" by (cases a)
  show ?case
    unfolding a by (simp add: fetch_pages_env[OF assms] Cons.IH split: sum.splits)
qed

lemma sample_select_best: "select_best [rank9] = [((''L'', ''A1234''), rank9)]"
  by (simp add: select_best_def best_step_def replaces_def entry_key_def rank9_def)

lemma sample_threshold:
  "threshold_template sample_config sample_discord rank9 = (''warn'', ''{ping} warn {label} #{rank}'')"
  by (simp add: threshold_template_def sample_config_def sample_watch_def sample_discord_def rank9_def)

lemma sample_alert_key: "alert_key rank9 ''warn'' = ''L|A1234|None|None|warn''"
  by (simp add: alert_key_def rank9_def str_opt_def)

lemma sample_rank9_key: "Entry.label rank9 = ''L''" "Entry.target rank9 = ''A1234''"
  by (simp_all add: rank9_def)

lemma best_previous_record_alert:
  "best_previous (record_alert st key now) l t = best_previous st l t"
  by (simp add: best_previous_def record_alert_def)

lemma sample_first_pass:
  "run_once (sample_env 7 sample_server 204) sample_config world0 = Done first_world"
proof -
  let ?ev = "sample_env 7 sample_server 204"
  let ?w1 = "\<lparr>state = record_entry empty_State rank9 7, disk = No_file, outbox = []\<rparr>"
  have n: "utcnow ?ev = 7" by (simp add: sample_env_def)
  have w1: "world0\<lparr>state := record_entry (state world0) rank9 (utcnow ?ev)\<rparr> = ?w1"
    by (simp add: world0_def n)
  have d: "discord sample_config = Some sample_discord" "cooldown_minutes (watch sample_config) = 30"
    by (simp_all add: sample_config_def sample_watch_def)
  have sa: "should_alert (record_entry empty_State rank9 7) ''L|A1234|None|None|warn'' 30 7 = Inr True"
    by (simp add: should_alert_def empty_State_def alerts_record_entry)
  have fm: "format_message ?ev sample_discord ''{ping} warn {label} #{rank}'' (context_of rank9) =
      Inr ''{ping} warn {label} #{rank}''"
    by (simp add: format_message_def sample_env_def)
  have sd: "send ?ev sample_discord ''{ping} warn {label} #{rank}'' ?w1 =
      Done (?w1\<lparr>outbox := [''{ping} warn {label} #{rank}'']\<rparr>)"
    by (simp add: send_def sample_env_def)
  have mn: "maybe_notify ?ev sample_config rank9 ''new'' ?w1 = Done first_world"
    by (simp add: maybe_notify_def d sample_threshold sample_alert_key n sa fm sd Let_def
        first_world_def first_state_def)
  have cl: "classify (best_previous (state world0) ''L'' ''A1234'') rank9 = New"
    by (simp add: classify_def best_previous_def world0_def empty_State_def)
  have one: "handle_one ?ev sample_config ((''L'', ''A1234''), rank9) world0 = Done first_world"
    by (simp add: handle_one_def Let_def cl w1 mn)
  have dk: "first_world\<lparr>disk := save_state (state first_world)\<rparr> = first_world"
    by (simp add: first_world_def)
  show ?thesis
    by (simp add: run_once_def sample_fetch_lists sample_vars_def handle_entries_def
        sample_select_best one dk)
qed

lemma sample_restarted_previous:
  "best_previous (state restarted) ''L'' ''A1234'' = Some (EntryState_of rank9 7)"
  by (simp add: restarted_def first_state_def best_previous_record_alert
      best_previous_record_entry sample_rank9_key)

lemma sample_second_previous:
  "best_previous (state second_world) ''L'' ''A1234'' = Some (EntryState_of rank9 100)"
  by (simp add: second_world_def best_previous_record_entry sample_rank9_key)

lemma sample_restart: "init_world (disk first_world) 100 = Inr restarted"
  by (simp add: init_world_def first_world_def load_state_save_state restarted_def)

lemma sample_second_pass:
  "run_once (sample_env 100 sample_server status) sample_config restarted = Done second_world"
proof -
  let ?ev = "sample_env 100 sample_server status"
  have n: "utcnow ?ev = 100" by (simp add: sample_env_def)
  note bp = sample_restarted_previous
  have cl: "classify (Some (EntryState_of rank9 7)) rank9 = Unchanged"
    by (rule classify_same_position) (simp add: position_EntryState_of)
  have one: "handle_one ?ev sample_config ((''L'', ''A1234''), rank9) restarted =
      Done (restarted\<lparr>state := record_entry (state restarted) rank9 100\<rparr>)"
    by (simp add: handle_one_def Let_def bp cl n)
  let ?x = "restarted\<lparr>state := record_entry (state restarted) rank9 100\<rparr>"
  have hb: "handle_entries ?ev sample_config (new_entries sample_vars) restarted = Done ?x"
    by (simp add: handle_entries_def sample_vars_def sample_select_best one)
  have "run_once ?ev sample_config restarted = Done (?x\<lparr>disk := save_state (state ?x)\<rparr>)"
    by (simp add: run_once_def sample_fetch_lists hb)
  also have "?x\<lparr>disk := save_state (state ?x)\<rparr> = second_world"
    by (simp add: restarted_def second_world_def)
  finally show ?thesis .
qed

text \<open>
  Claim C5, as stated: after a restart, a pass over the same content sends nothing
  and leaves every stored entry with the field values it had. The first half holds;
  the second fails, because \<^const>\<open>record_entry\<close> writes the time of the pass into
  \<^verbatim>\<open>updated_at\<close>. The sample watcher is restarted from its state file and runs a
  second pass over the same pages at a later time: nothing is sent, and the stored
  entry differs from the one before the pass.
\<close>

theorem restart_same_content_counterexample:
  "run_once (sample_env 7 sample_server 204) sample_config world0 = Done first_world \<and>
   init_world (disk first_world) 100 = Inr restarted \<and>
   run_once (sample_env 100 sample_server 204) sample_config restarted = Done second_world \<and>
   outbox second_world = [] \<and>
   best_previous (state restarted) ''L'' ''A1234'' = Some (EntryState_of rank9 7) \<and>
   best_previous (state second_world) ''L'' ''A1234'' = Some (EntryState_of rank9 100) \<and>
   best_previous (state second_world) ''L'' ''A1234'' \<noteq>
     best_previous (state restarted) ''L'' ''A1234''"
proof -
  note a = sample_restarted_previous
  note b = sample_second_previous
  have c: "EntryState_of rank9 100 \<noteq> EntryState_of rank9 7"
    by (simp add: EntryState_of_def isoformat_def)
  show ?thesis
    using sample_first_pass sample_restart sample_second_pass [of 204] a b c
    by (simp add: second_world_def)
qed

text \<open>
  Claim C5, amended. Let a pass return, let the watcher be restarted from the state
  file that the pass wrote, and let a pass run over the same content (the session
  returns the same pages, with the same digests and the same extracted lines).
  Then that pass returns, sends nothing and records no alert, and every (list,
  target) pair has a stored entry exactly when it had one before, with the same
  rank, page, shift, date and raw text; only \<^verbatim>\<open>updated_at\<close> may change.
\<close>

theorem restart_same_content:
  assumes "run_once ev1 cfg w0 = Done w1"
    and "fetch ev2 = fetch ev1" and "sha256 ev2 = sha256 ev1" and "pdf_lines ev2 = pdf_lines ev1"
    and "html_lines ev2 = html_lines ev1" and "decoded_lines ev2 = decoded_lines ev1"
    and "init_world (disk w1) now = Inr w1'"
  shows "\<exists>w2. run_once ev2 cfg w1' = Done w2 \<and> outbox w2 = [] \<and>
           alerts (state w2) = alerts (state w1) \<and>
           (\<forall>l t. map_option position (best_previous (state w2) l t) =
                   map_option position (best_previous (state w1) l t))"
proof -
  from assms(1) obtain v w1a where v: "fetch_lists ev1 cfg (paired_labels (watch cfg)) initial_vars = Inr v"
    and h1: "handle_best ev1 cfg (select_best (new_entries v)) w0 = Done w1a"
    and w1: "w1 = w1a\<lparr>disk := save_state (state w1a)\<rparr>"
    by (auto simp: run_once_def handle_entries_def split: sum.splits outcome.splits)
  let ?b = "select_best (new_entries v)"
  from w1 have st: "state w1 = state w1a" and dk: "disk w1 = save_state (state w1)" by simp_all
  from assms(7) dk have w1': "w1' = \<lparr>state = state w1, disk = disk w1, outbox = []\<rparr>"
    by (simp add: init_world_def load_state_save_state)
  have v2: "fetch_lists ev2 cfg (paired_labels (watch cfg)) initial_vars = Inr v"
    using v by (simp add: fetch_lists_env[OF assms(2-6)])
  have keys: "\<forall>((l, t), e)\<in>set ?b. entry_key e = (l, t)"
    using select_best_keys by auto
  have pre: "\<forall>((l, t), e)\<in>set ?b. entry_key e = (l, t) \<and>
           map_option position (best_previous (state w1') l t) = Some (position (EntryState_of e 0))"
  proof (intro ballI, clarify)
    fix l t e assume m: "((l, t), e) \<in> set ?b"
    have "best_previous (state w1a) l t = Some (EntryState_of e (utcnow ev1))"
      using h1 select_best_distinct keys m by (rule handle_best_records)
    with m keys show "entry_key e = (l, t) \<and>
           map_option position (best_previous (state w1') l t) = Some (position (EntryState_of e 0))"
      by (auto simp: w1' st position_EntryState_of)
  qed
  from handle_best_same_positions[OF select_best_distinct pre, of ev2 cfg]
  obtain w' where w': "handle_best ev2 cfg ?b w1' = Done w'"
    "outbox w' = outbox w1'" "alerts (state w') = alerts (state w1')"
    "\<forall>l t. map_option position (best_previous (state w') l t) =
                   map_option position (best_previous (state w1') l t)" by blast
  have "run_once ev2 cfg w1' = Done (w'\<lparr>disk := save_state (state w')\<rparr>)"
    using v2 w'(1) by (simp add: run_once_def handle_entries_def)
  with w' show ?thesis by (simp add: w1')
qed

theorem restart_same_content_witness:
  "run_once (sample_env 7 sample_server 204) sample_config world0 = Done first_world \<and>
   fetch (sample_env 100 sample_server 500) = fetch (sample_env 7 sample_server 204) \<and>
   sha256 (sample_env 100 sample_server 500) = sha256 (sample_env 7 sample_server 204) \<and>
   pdf_lines (sample_env 100 sample_server 500) = pdf_lines (sample_env 7 sample_server 204) \<and>
   html_lines (sample_env 100 sample_server 500) = html_lines (sample_env 7 sample_server 204) \<and>
   decoded_lines (sample_env 100 sample_server 500) = decoded_lines (sample_env 7 sample_server 204) \<and>
   init_world (disk first_world) 100 = Inr restarted \<and>
   (\<exists>w2. run_once (sample_env 100 sample_server 500) sample_config restarted = Done w2 \<and>
      outbox w2 = [] \<and> alerts (state w2) = alerts (state first_world) \<and>
      (\<forall>l t. map_option position (best_previous (state w2) l t) =
              map_option position (best_previous (state first_world) l t)))"
proof -
  have e: "fetch (sample_env 100 sample_server 500) = fetch (sample_env 7 sample_server 204)"
    "sha256 (sample_env 100 sample_server 500) = sha256 (sample_env 7 sample_server 204)"
    "pdf_lines (sample_env 100 sample_server 500) = pdf_lines (sample_env 7 sample_server 204)"
    "html_lines (sample_env 100 sample_server 500) = html_lines (sample_env 7 sample_server 204)"
    "decoded_lines (sample_env 100 sample_server 500) = decoded_lines (sample_env 7 sample_server 204)"
    by (simp_all add: sample_env_def)
  from restart_same_content [OF sample_first_pass e sample_restart]
  show ?thesis using sample_first_pass e sample_restart by simp
qed

section \<open>Properties of the dates\<close>

text \<open>
  What \<^const>\<open>DATE_REGEX\<close> matches holds a hyphen, or starts with one or two digits
  and a slash. A text of the second kind does not start with the four digits of a
  year, so \<^verbatim>\<open>strptime\<close> with \<^verbatim>\<open>%Y/%m/%d\<close> rejects it.
\<close>

lemma consumesI: "(\<And>p q. q \<in> set (m p) \<Longrightarrow> \<exists>w. snd p = w @ snd q \<and> P w) \<Longrightarrow> consumes m P"
  unfolding consumes_def by blast

lemma consumesD: "consumes m P \<Longrightarrow> q \<in> set (m p) \<Longrightarrow> \<exists>w. snd p = w @ snd q \<and> P w"
  unfolding consumes_def by blast

lemma consumes_char_class: "consumes (char_class C) (\<lambda>w. \<exists>c. w = [c] \<and> C c)"
  by (rule consumesI) (auto simp: char_class_def split: list.splits if_splits)

lemma consumes_seq:
  assumes "consumes m1 P1" and "consumes m2 P2"
  shows "consumes (seq m1 m2) (\<lambda>w. \<exists>w1 w2. w = w1 @ w2 \<and> P1 w1 \<and> P2 w2)"
proof (rule consumesI)
  fix p q assume "q \<in> set (seq m1 m2 p)"
  then obtain r where r: "r \<in> set (m1 p)" and q: "q \<in> set (m2 r)"
    by (auto simp: seq_def)
  from consumesD[OF assms(1) r] obtain w1 where w1: "snd p = w1 @ snd r" "P1 w1" by blast
  from consumesD[OF assms(2) q] obtain w2 where w2: "snd r = w2 @ snd q" "P2 w2" by blast
  from w1 w2 show "\<exists>w. snd p = w @ snd q \<and> (\<exists>w1 w2. w = w1 @ w2 \<and> P1 w1 \<and> P2 w2)"
    by auto
qed

lemma consumes_alt:
  assumes "consumes m1 P1" and "consumes m2 P2"
  shows "consumes (alt m1 m2) (\<lambda>w. P1 w \<or> P2 w)"
  using assms unfolding consumes_def alt_def by (metis Un_iff set_append)

lemma consumes_eps: "consumes eps (\<lambda>w. w = [])"
  by (rule consumesI) (simp add: eps_def)

lemma consumes_word_boundary: "consumes word_boundary (\<lambda>w. w = [])"
  by (rule consumesI) (simp add: word_boundary_def split: if_splits)

lemma consumes_weaken: "consumes m P \<Longrightarrow> (\<And>w. P w \<Longrightarrow> Q w) \<Longrightarrow> consumes m Q"
  unfolding consumes_def by blast

lemma consumes_digit: "consumes digit (\<lambda>w. \<exists>c. w = [c] \<and> is_digit c)"
  unfolding digit_def by (rule consumes_char_class)

lemma consumes_lit: "consumes (lit c) (\<lambda>w. w = [c])"
  unfolding lit_def by (rule consumes_weaken[OF consumes_char_class]) auto

lemma consumes_digits_1_2:
  "consumes digits_1_2 (\<lambda>w. w \<noteq> [] \<and> length w \<le> 2 \<and> (\<forall>c\<in>set w. is_digit c))"
  unfolding digits_1_2_def opt_def
  by (rule consumes_weaken[OF consumes_seq[OF consumes_digit consumes_alt[OF consumes_digit consumes_eps]]])
     auto

lemma consumes_any: "consumes (exactly n digit) (\<lambda>w. True)"
  by (induction n) (auto intro: consumes_weaken[OF consumes_eps] consumes_weaken[OF consumes_seq[OF consumes_digit]])


lemma consumes_seq_any:
  assumes "consumes m1 P1" and "consumes m2 P2"
  shows "consumes (seq m1 m2) (\<lambda>w. True)"
  by (rule consumes_weaken[OF consumes_seq[OF assms]]) simp

lemma consumes_iso_date:
  "consumes (seq (exactly 4 digit) (seq (lit CHR ''-'') (seq (exactly 2 digit)
              (seq (lit CHR ''-'') (exactly 2 digit)))))
     (\<lambda>w. CHR ''-'' \<in> set w)"
  by (rule consumes_weaken
        [OF consumes_seq [OF consumes_any consumes_seq [OF consumes_lit
              consumes_seq_any [OF consumes_any consumes_seq_any [OF consumes_lit consumes_any]]]]])
     auto

lemma consumes_slash_date:
  "consumes (seq digits_1_2 (seq (lit CHR ''/'') (seq digits_1_2
              (seq (lit CHR ''/'') (exactly 4 digit)))))
     (\<lambda>w. \<exists>a b. w = a @ CHR ''/'' # b \<and> a \<noteq> [] \<and> length a \<le> 2 \<and> (\<forall>c\<in>set a. is_digit c))"
  by (rule consumes_weaken
        [OF consumes_seq [OF consumes_digits_1_2 consumes_seq [OF consumes_lit
              consumes_seq_any [OF consumes_digits_1_2 consumes_seq_any [OF consumes_lit consumes_any]]]]])
     auto

lemma consumes_DATE_REGEX:
  "consumes DATE_REGEX
     (\<lambda>w. CHR ''-'' \<in> set w \<or>
          (\<exists>a b. w = a @ CHR ''/'' # b \<and> a \<noteq> [] \<and> length a \<le> 2 \<and> (\<forall>c\<in>set a. is_digit c)))"
  unfolding DATE_REGEX_def
  by (rule consumes_weaken
        [OF consumes_seq [OF consumes_word_boundary
              consumes_seq [OF consumes_alt [OF consumes_iso_date consumes_slash_date]
                consumes_word_boundary]]])
     auto

lemma search_from_in_matches:
  "search_from m pre rest = Some (s, e) \<Longrightarrow> e \<in> set (m s)"
  by (induction rest arbitrary: pre) (auto split: list.splits)

lemma matched_consumed: "snd p = w @ snd q \<Longrightarrow> matched p q = w"
  by (simp add: matched_def)

lemma not_digit_slash: "\<not> is_digit CHR ''/''"
  by (simp add: is_digit_def)

lemma year_field_slash:
  assumes "a \<noteq> []" and "length a \<le> 2"
  shows "year_field (pre, a @ CHR ''/'' # b) = []"
proof -
  from assms consider c where "a = [c]" | c d where "a = [c, d]"
    by (cases a; cases "tl a") auto
  then show ?thesis
    by cases
       (simp_all add: year_field_def eval_nat_numeral seq_def digit_def char_class_def
          not_digit_slash)
qed

lemma year_first_branch_unreachable:
  assumes "search DATE_REGEX ([], line) = Some (s, e)" and "CHR ''-'' \<notin> set (matched s e)"
  shows "strptime_ymd (matched s e) = Inl ValueError"
proof -
  from assms(1) have "e \<in> set (DATE_REGEX s)"
    by (simp add: search_def search_from_in_matches)
  from consumesD[OF consumes_DATE_REGEX this] obtain w where w: "snd s = w @ snd e"
    and form: "CHR ''-'' \<in> set w \<or>
          (\<exists>a b. w = a @ CHR ''/'' # b \<and> a \<noteq> [] \<and> length a \<le> 2 \<and> (\<forall>c\<in>set a. is_digit c))"
    by blast
  from w have m: "matched s e = w" by (rule matched_consumed)
  with assms(2) form obtain a b where ab: "w = a @ CHR ''/'' # b" "a \<noteq> []" "length a \<le> 2"
    by auto
  have "three_fields year_field month_field day_field w = []"
    by (simp add: three_fields_def ab(1) year_field_slash[OF ab(2,3)])
  then show ?thesis by (simp add: strptime_ymd_def m)
qed

text \<open>
  Hence the second \<^verbatim>\<open>try\<close> of \<^verbatim>\<open>_normalise_date\<close> never succeeds on a value that
  \<^const>\<open>extract_date\<close> passes to it: on every line \<^const>\<open>extract_date\<close> is what it
  would be without that branch.
\<close>

lemma extract_date_without_year_first:
  "extract_date line =
     (case search DATE_REGEX ([], line) of
        None \<Rightarrow> None
      | Some (s, e) \<Rightarrow>
          if CHR ''-'' \<in> set (matched s e) then Some (matched s e)
          else (case strptime_dmy (matched s e) of
                  Inr t \<Rightarrow> Some (strftime_ymd t)
                | Inl err \<Rightarrow> Some (matched s e)))"
  by (auto simp: extract_date_def normalise_date_def Let_def year_first_branch_unreachable
      split: option.splits sum.splits)

text \<open>
  Claim C9. A day/month/year date is normalised, and a date that exists in neither
  format is passed through as it is. A year/month/day date with slashes is not:
  \<^const>\<open>normalise_date\<close> would turn it into \<^verbatim>\<open>YYYY-MM-DD\<close>, but \<^const>\<open>DATE_REGEX\<close>
  has no alternative that matches it, so \<^const>\<open>extract_date\<close> finds no date on the
  line and the entry is built without one.
\<close>

theorem extract_date_year_first_slashes:
  "extract_date ''A1234 3 2024/03/15'' = None
   \<and> map Entry.date (parse_entries [''A1234 3 2024/03/15''] ''L'' 0 [''A1234'']) = [None]
   \<and> normalise_date ''2024/03/15'' = ''2024-03-15''
   \<and> extract_date ''A1234 3 15/03/2024'' = Some ''2024-03-15''
   \<and> extract_date ''A1234 3 2024-03-15'' = Some ''2024-03-15''
   \<and> extract_date ''A1234 3 31/02/2024'' = Some ''31/02/2024''"
  by code_simp

end
